theory Spec2Isabelle
  imports Complex_Main "HOL-Library.Word" "HOL-Library.Monad_Syntax"
begin

text \<open>
  A model of the offline mastering engine of the audio mastering application
  (component \<open>AudioMasteringApp\<close>): the preset catalog and the DSP spec builder, the
  wiring of the Web Audio graph, the loudness and true-peak analysis, the trim of the
  two-pass orchestrator, and the WAV export. The definitions come first, in the order of
  the source; the properties of the specification follow, each under the number of its
  claim.
\<close>

section \<open>Numbers\<close>

text \<open>
  The mastering engine computes with JavaScript numbers. Finite numbers are modelled as
  reals. The two-pass orchestrator can also meet the value \<open>-Infinity\<close>, which the
  loudness meter returns for a clip without a complete block, and a \<open>Float32Array\<close>
  can hold infinite samples and NaN, so the values that flow into the trim computation and
  into the true-peak estimate are modelled by \<open>number\<close>: a real, one of the two
  infinities, or NaN. The operations follow ECMAScript: NaN is contagious, every
  comparison with NaN is false, and \<open>Infinity - Infinity\<close> is NaN.

  \<open>add\<close>, \<open>sub\<close> and \<open>mul\<close> compute the exact sum, difference and product of finite
  numbers. The source rounds each result to a binary64 value; \<open>addRounded\<close> and
  \<open>subRounded\<close> below take the rounding as a parameter, and the property of the trim
  that depends on it is proved for every rounding.
\<close>

datatype number = Fin real | PosInfinity | NegInfinity | NaN

fun neg :: "number \<Rightarrow> number" where
  "neg (Fin a) = Fin (- a)"
| "neg PosInfinity = NegInfinity"
| "neg NegInfinity = PosInfinity"
| "neg NaN = NaN"

fun add :: "number \<Rightarrow> number \<Rightarrow> number" where
  "add NaN _ = NaN"
| "add _ NaN = NaN"
| "add (Fin a) (Fin b) = Fin (a + b)"
| "add PosInfinity NegInfinity = NaN"
| "add NegInfinity PosInfinity = NaN"
| "add PosInfinity _ = PosInfinity"
| "add _ PosInfinity = PosInfinity"
| "add NegInfinity _ = NegInfinity"
| "add _ NegInfinity = NegInfinity"

definition sub :: "number \<Rightarrow> number \<Rightarrow> number" where
  "sub a b = add a (neg b)"

text \<open>\<open>gt a b\<close> is the JavaScript comparison \<open>a > b\<close>, \<open>lt a b\<close> is \<open>a < b\<close>.\<close>

fun gt :: "number \<Rightarrow> number \<Rightarrow> bool" where
  "gt NaN _ = False"
| "gt _ NaN = False"
| "gt (Fin a) (Fin b) = (a > b)"
| "gt PosInfinity PosInfinity = False"
| "gt PosInfinity _ = True"
| "gt _ PosInfinity = False"
| "gt NegInfinity _ = False"
| "gt _ NegInfinity = True"

definition lt :: "number \<Rightarrow> number \<Rightarrow> bool" where
  "lt a b = gt b a"

text \<open>\<open>a <= b\<close> in JavaScript: false when either side is NaN.\<close>

definition le :: "number \<Rightarrow> number \<Rightarrow> bool" where
  "le a b = (a \<noteq> NaN \<and> b \<noteq> NaN \<and> \<not> gt a b)"

definition Math_min :: "number \<Rightarrow> number \<Rightarrow> number" where
  "Math_min a b = (if a = NaN \<or> b = NaN then NaN else if gt a b then b else a)"

definition Math_max :: "number \<Rightarrow> number \<Rightarrow> number" where
  "Math_max a b = (if a = NaN \<or> b = NaN then NaN else if gt a b then a else b)"

fun mul :: "number \<Rightarrow> number \<Rightarrow> number" where
  "mul NaN _ = NaN"
| "mul _ NaN = NaN"
| "mul (Fin a) (Fin b) = Fin (a * b)"
| "mul (Fin a) PosInfinity =
     (if a = 0 then NaN else if 0 < a then PosInfinity else NegInfinity)"
| "mul (Fin a) NegInfinity =
     (if a = 0 then NaN else if 0 < a then NegInfinity else PosInfinity)"
| "mul PosInfinity (Fin b) =
     (if b = 0 then NaN else if 0 < b then PosInfinity else NegInfinity)"
| "mul NegInfinity (Fin b) =
     (if b = 0 then NaN else if 0 < b then NegInfinity else PosInfinity)"
| "mul PosInfinity PosInfinity = PosInfinity"
| "mul PosInfinity NegInfinity = NegInfinity"
| "mul NegInfinity PosInfinity = NegInfinity"
| "mul NegInfinity NegInfinity = PosInfinity"

fun Math_abs :: "number \<Rightarrow> number" where
  "Math_abs (Fin a) = Fin \<bar>a\<bar>"
| "Math_abs PosInfinity = PosInfinity"
| "Math_abs NegInfinity = PosInfinity"
| "Math_abs NaN = NaN"

fun Math_log10 :: "number \<Rightarrow> number" where
  "Math_log10 (Fin x) = (if 0 < x then Fin (log 10 x) else if x = 0 then NegInfinity else NaN)"
| "Math_log10 PosInfinity = PosInfinity"
| "Math_log10 NegInfinity = NaN"
| "Math_log10 NaN = NaN"

text \<open>
  Addition and subtraction as the source performs them: the exact result of an operation
  on two finite numbers is rounded by \<open>rnd\<close>, which yields a finite number, or an
  infinity when the result overflows. Binary64 arithmetic is the instance where \<open>rnd\<close>
  rounds to the nearest binary64 value, and \<open>rnd = Fin\<close> is exact arithmetic. Comparisons,
  \<open>Math.min\<close> and \<open>Math.max\<close> do not round.
\<close>

fun addRounded :: "(real \<Rightarrow> number) \<Rightarrow> number \<Rightarrow> number \<Rightarrow> number" where
  "addRounded rnd (Fin a) (Fin b) = rnd (a + b)"
| "addRounded rnd a b = add a b"

definition subRounded :: "(real \<Rightarrow> number) \<Rightarrow> number \<Rightarrow> number \<Rightarrow> number" where
  "subRounded rnd a b = addRounded rnd a (neg b)"

section \<open>Preset catalog\<close>

datatype presetKey =
    deharsh | mudremover | basstamer | vintage | modern | lofi | neosoul | festival
  | focus | immersive | wide | vocalforward | smoothmids | dynamic | maximpact | bigcappo

text \<open>
  The \<open>settings\<close> object of a catalog entry. The display strings of an entry
  (name, intent, description) are used by the user interface only and are left out.
\<close>

record Settings =
  bass :: real
  mid :: real
  high :: real
  compression :: real
  loudness :: real
  special :: "string option"

definition mkSettings :: "real \<Rightarrow> real \<Rightarrow> real \<Rightarrow> real \<Rightarrow> real \<Rightarrow> Settings" where
  "mkSettings b m h c l =
     \<lparr> bass = b, mid = m, high = h, compression = c, loudness = l, special = None \<rparr>"

fun presets :: "presetKey \<Rightarrow> Settings" where
  "presets deharsh = mkSettings 0 (-1) (-3) 4 (-9)"
| "presets mudremover = mkSettings (-2) 2 1 2 (-9)"
| "presets basstamer = mkSettings 4 0 0 6 (-9)"
| "presets vintage = mkSettings 3 1 (-2) 3 (-9)"
| "presets modern = mkSettings 1 0 4 3 (-9)"
| "presets lofi = mkSettings 2 (-2) (-4) 5 (-10)"
| "presets neosoul = mkSettings 2 3 1 2 (-9)"
| "presets festival = mkSettings 5 2 3 7 (-8.5)"
| "presets focus = mkSettings 1 2 0 4 (-9)"
| "presets immersive = mkSettings 0 1 3 2 (-9)"
| "presets wide = mkSettings (-1) 0 4 2 (-9)"
| "presets vocalforward = mkSettings 1 5 2 4 (-9)"
| "presets smoothmids = mkSettings 1 (-2) 1 3 (-9)"
| "presets dynamic = mkSettings 0 1 2 1.5 (-9.5)"
| "presets maximpact = mkSettings 4 3 3 6 (-8.5)"
| "presets bigcappo = (mkSettings 3 4 1 3 (-9)) \<lparr> special := Some ''bigcappo'' \<rparr>"

section \<open>DSP types\<close>

datatype EQNodeSpec =
    hpf real "nat option" "real option"
  | lowshelf real real "real option"
  | highshelf real real "real option"
  | bell real real real

text \<open>
  \<open>MultibandBandSpec\<close> is also the shape of the limiter of an \<open>OutputSpec\<close>, and
  \<open>BusCompSpec\<close> has the same five fields and two more.
\<close>

record MultibandBandSpec =
  ratio :: real
  thresholdDb :: real
  kneeDb :: real
  attackSec :: real
  releaseSec :: real

record MultibandSpec =
  xoversHz :: "real \<times> real \<times> real \<times> real"
  bands :: "MultibandBandSpec \<times> MultibandBandSpec \<times> MultibandBandSpec
            \<times> MultibandBandSpec \<times> MultibandBandSpec"

record BusCompSpec = MultibandBandSpec +
  enabled :: bool
  sidechainHpfHz :: "real option"

record WidthHighOnly =
  freq :: real
  width :: real

record StereoSpec =
  monoBelowHz :: "real option"
  overallWidth :: "real option"
  widthHighOnly :: "WidthHighOnly option"

record TrimClampDb =
  min_db :: real
  max_db :: real

record OutputSpec =
  targetIntegratedLUFS :: real
  ceilingDbFS :: real
  limiter :: MultibandBandSpec
  trimClampDb :: TrimClampDb

text \<open>\<open>Partial<PresetDSP>\<close>: every field may be absent.\<close>

record PartialPresetDSP =
  exact_eq :: "EQNodeSpec list option"
  exact_busComp :: "BusCompSpec option"
  exact_multiband :: "MultibandSpec option"
  exact_stereo :: "StereoSpec option"
  exact_output :: "OutputSpec option"
  exact_special :: "string option"

record PresetDSP =
  eq :: "EQNodeSpec list"
  busComp :: "BusCompSpec option"
  multiband :: MultibandSpec
  stereo :: StereoSpec
  "output" :: OutputSpec
  special :: "string option"

section \<open>Utility\<close>

definition dbToLin :: "real \<Rightarrow> real" where
  "dbToLin db = 10 powr (db / 20)"

definition linToDb :: "real \<Rightarrow> real" where
  "linToDb lin = 20 * log 10 (max (1 / 10 ^ 12) lin)"

definition clamp :: "real \<Rightarrow> real \<Rightarrow> real \<Rightarrow> real" where
  "clamp v mn mx = max mn (min mx v)"

text \<open>The same \<open>clamp\<close> on values that may be infinite or NaN.\<close>

definition clampNumber :: "number \<Rightarrow> number \<Rightarrow> number \<Rightarrow> number" where
  "clampNumber v mn mx = Math_max mn (Math_min mx v)"

definition band :: "real \<Rightarrow> real \<Rightarrow> real \<Rightarrow> real \<Rightarrow> real \<Rightarrow> MultibandBandSpec" where
  "band r t k a rl =
     \<lparr> ratio = r, thresholdDb = t, kneeDb = k, attackSec = a, releaseSec = rl \<rparr>"

definition UNIVERSAL_OUTPUT :: OutputSpec where
  "UNIVERSAL_OUTPUT =
     \<lparr> targetIntegratedLUFS = -14, ceilingDbFS = -0.5,
       limiter = band 20 (-7) 0 0.001 0.10,
       trimClampDb = \<lparr> min_db = -24, max_db = 12 \<rparr> \<rparr>"

definition MB_XOVERS :: "real \<times> real \<times> real \<times> real" where
  "MB_XOVERS = (120, 400, 2500, 6000)"

definition noExact :: PartialPresetDSP where
  "noExact = \<lparr> exact_eq = None, exact_busComp = None, exact_multiband = None,
               exact_stereo = None, exact_output = None, exact_special = None \<rparr>"

definition withLimiterThreshold :: "real \<Rightarrow> OutputSpec" where
  "withLimiterThreshold t =
     UNIVERSAL_OUTPUT \<lparr> limiter := (limiter UNIVERSAL_OUTPUT) \<lparr> thresholdDb := t \<rparr> \<rparr>"

fun EXACT_PRESETS :: "presetKey \<Rightarrow> PartialPresetDSP option" where
  "EXACT_PRESETS smoothmids = Some (noExact
     \<lparr> exact_eq := Some
         [ hpf 40 (Some 2) (Some 0.707),
           bell 250 (-1.5) 1.5,
           highshelf 4000 1.0 (Some 0.7) ],
       exact_multiband := Some \<lparr> xoversHz = MB_XOVERS, bands =
         ( band 2.0 (-24) 3 0.025 0.12,
           band 2.0 (-22) 3 0.015 0.11,
           band 1.6 (-20) 3 0.010 0.10,
           band 1.5 (-18) 3 0.005 0.08,
           band 1.4 (-18) 3 0.002 0.06 ) \<rparr>,
       exact_stereo := Some \<lparr> monoBelowHz = Some 120, overallWidth = None,
         widthHighOnly = Some \<lparr> freq = 150, width = 110 \<rparr> \<rparr>,
       exact_output := Some UNIVERSAL_OUTPUT \<rparr>)"
| "EXACT_PRESETS dynamic = Some (noExact
     \<lparr> exact_eq := Some
         [ hpf 35 (Some 2) (Some 0.707),
           highshelf 10000 1.5 (Some 0.7) ],
       exact_multiband := Some \<lparr> xoversHz = MB_XOVERS, bands =
         ( band 3.0 (-26) 3 0.025 0.12,
           band 2.0 (-22) 3 0.015 0.11,
           band 1.6 (-20) 3 0.010 0.10,
           band 1.5 (-18) 3 0.005 0.08,
           band 1.4 (-18) 3 0.002 0.06 ) \<rparr>,
       exact_stereo := Some \<lparr> monoBelowHz = Some 120, overallWidth = Some 115,
         widthHighOnly = None \<rparr>,
       exact_output := Some (withLimiterThreshold (-7)) \<rparr>)"
| "EXACT_PRESETS maximpact = Some (noExact
     \<lparr> exact_eq := Some
         [ lowshelf 60 1.0 (Some 1.0),
           bell 350 (-2.0) 1.8,
           bell 8000 0.5 1.0 ],
       exact_busComp := Some
         \<lparr> ratio = 4.0, thresholdDb = -18, kneeDb = 6, attackSec = 0.03, releaseSec = 0.10,
           enabled = True, sidechainHpfHz = Some 100 \<rparr>,
       exact_multiband := Some \<lparr> xoversHz = MB_XOVERS, bands =
         ( band 3.5 (-26) 3 0.025 0.12,
           band 2.5 (-23) 3 0.015 0.11,
           band 1.8 (-20) 3 0.010 0.10,
           band 1.6 (-18) 3 0.005 0.08,
           band 1.4 (-18) 3 0.002 0.06 ) \<rparr>,
       exact_stereo := Some \<lparr> monoBelowHz = Some 120, overallWidth = None,
         widthHighOnly = Some \<lparr> freq = 4000, width = 125 \<rparr> \<rparr>,
       exact_output := Some (withLimiterThreshold (-8)) \<rparr>)"
| "EXACT_PRESETS modern = Some (noExact
     \<lparr> exact_eq := Some
         [ bell 300 (-1.5) 2.0,
           highshelf 12000 2.0 (Some 0.7) ],
       exact_multiband := Some \<lparr> xoversHz = MB_XOVERS, bands =
         ( band 2.5 (-25) 3 0.025 0.12,
           band 2.0 (-22) 3 0.015 0.11,
           band 1.5 (-19) 3 0.010 0.10,
           band 1.4 (-18) 3 0.005 0.08,
           band 1.3 (-18) 3 0.002 0.06 ) \<rparr>,
       exact_stereo := Some \<lparr> monoBelowHz = Some 120, overallWidth = None,
         widthHighOnly = Some \<lparr> freq = 200, width = 120 \<rparr> \<rparr>,
       exact_output := Some (withLimiterThreshold (-7)) \<rparr>)"
| "EXACT_PRESETS festival = Some (noExact
     \<lparr> exact_eq := Some
         [ lowshelf 50 1.5 (Some 0.8),
           bell 250 (-2.5) 2.0,
           highshelf 11000 1.0 (Some 0.7),
           bell 3200 (-1.0) 2.5 ],
       exact_multiband := Some \<lparr> xoversHz = MB_XOVERS, bands =
         ( band 5.0 (-28) 3 0.025 0.12,
           band 3.0 (-24) 3 0.015 0.11,
           band 1.8 (-20) 3 0.010 0.10,
           band 1.6 (-18) 3 0.005 0.08,
           band 1.4 (-18) 3 0.002 0.06 ) \<rparr>,
       exact_stereo := Some \<lparr> monoBelowHz = Some 100, overallWidth = None,
         widthHighOnly = Some \<lparr> freq = 5000, width = 130 \<rparr> \<rparr>,
       exact_output := Some (withLimiterThreshold (-9)) \<rparr>)"
| "EXACT_PRESETS bigcappo = Some (noExact \<lparr> exact_special := Some ''bigcappo'' \<rparr>)"
| "EXACT_PRESETS _ = None"

section \<open>DSP spec builder\<close>

text \<open>
  The multiband spec that \<open>buildDSPForPreset\<close> derives from the compression slider
  (the block from \<open>const comp\<close> to \<open>const multiband\<close> of the source).
\<close>

definition lowRatio :: "real \<Rightarrow> real" where
  "lowRatio s = (let comp = clamp s 1.5 7 in clamp (1.8 + comp * 0.45) 1.6 5.0)"

definition lowMidRatio :: "real \<Rightarrow> real" where
  "lowMidRatio s = (let comp = clamp s 1.5 7 in clamp (1.6 + comp * 0.28) 1.4 3.5)"

definition midRatio :: "real \<Rightarrow> real" where
  "midRatio s = (let comp = clamp s 1.5 7 in clamp (1.3 + comp * 0.12) 1.2 2.0)"

definition highMidRatio :: "real \<Rightarrow> real" where
  "highMidRatio s = (let comp = clamp s 1.5 7 in clamp (1.2 + comp * 0.10) 1.2 1.8)"

definition highRatio :: "real \<Rightarrow> real" where
  "highRatio s = (let comp = clamp s 1.5 7 in clamp (1.2 + comp * 0.08) 1.2 1.6)"

definition threshBase :: "real \<Rightarrow> real" where
  "threshBase s = (let comp = clamp s 1.5 7 in -22 - (comp - 2) * 0.8)"

definition sliderMultiband :: "real \<Rightarrow> MultibandSpec" where
  "sliderMultiband s =
     \<lparr> xoversHz = MB_XOVERS,
       bands =
         ( band (lowRatio s) (threshBase s - 2) 3 0.025 0.12,
           band (lowMidRatio s) (threshBase s - 1) 3 0.015 0.11,
           band (midRatio s) (threshBase s + 0) 3 0.010 0.10,
           band (highMidRatio s) (threshBase s + 1) 3 0.005 0.08,
           band (highRatio s) (threshBase s + 1) 3 0.002 0.06 ) \<rparr>"

definition stereoFor :: "presetKey \<Rightarrow> StereoSpec" where
  "stereoFor key =
     (if key = focus then
        \<lparr> monoBelowHz = Some 120, overallWidth = Some 95, widthHighOnly = None \<rparr>
      else if key = wide then
        \<lparr> monoBelowHz = Some 120, overallWidth = Some 125, widthHighOnly = None \<rparr>
      else if key = immersive then
        \<lparr> monoBelowHz = Some 120, overallWidth = Some 118, widthHighOnly = None \<rparr>
      else
        \<lparr> monoBelowHz = Some 120, overallWidth = Some 110, widthHighOnly = None \<rparr>)"

definition buildDSPForPreset :: "presetKey \<Rightarrow> PresetDSP" where
  "buildDSPForPreset key =
     (let exact = EXACT_PRESETS key;
          s = presets key;
          eq0 =
            [ hpf 30 (Some 2) (Some 0.707),
              lowshelf 120 (clamp (bass s) (-6) 6) (Some 1.0),
              bell 1500 (clamp (mid s) (-6) 6) 1.1,
              highshelf 12000 (clamp (high s) (-6) 6) (Some 0.7) ];
          dsp =
            \<lparr> eq = eq0, busComp = None, multiband = sliderMultiband (compression s),
              stereo = stereoFor key, output = UNIVERSAL_OUTPUT,
              special = Settings.special s \<rparr>
      in case exact of
           Some e \<Rightarrow>
             \<lparr> eq = (case exact_eq e of Some x \<Rightarrow> x | None \<Rightarrow> eq dsp),
               busComp = (case exact_busComp e of Some x \<Rightarrow> Some x | None \<Rightarrow> busComp dsp),
               multiband =
                 (case exact_multiband e of Some x \<Rightarrow> x | None \<Rightarrow> multiband dsp),
               stereo = (case exact_stereo e of Some x \<Rightarrow> x | None \<Rightarrow> stereo dsp),
               output = (case exact_output e of Some x \<Rightarrow> x | None \<Rightarrow> output dsp),
               special =
                 (case exact_special e of Some x \<Rightarrow> Some x | None \<Rightarrow> special dsp) \<rparr>
         | None \<Rightarrow> dsp)"

section \<open>Two-pass orchestrator: the trim\<close>

text \<open>
  The trim that \<open>processAudioPremium\<close> computes between its two renders, as a function
  of the output spec and of the two values measured on the analysis render
  (\<open>integrated\<close> and \<open>tpPre\<close> in the source).
\<close>

definition processAudioPremium_trimDb :: "OutputSpec \<Rightarrow> number \<Rightarrow> number \<Rightarrow> number" where
  "processAudioPremium_trimDb out integrated tpPre =
     (let trimDb = sub (Fin (targetIntegratedLUFS out)) integrated;
          predictedTP = add tpPre trimDb;
          trimDb = (if gt predictedTP (Fin (ceilingDbFS out))
                    then Math_min trimDb (sub (Fin (ceilingDbFS out)) tpPre)
                    else trimDb)
      in clampNumber trimDb (Fin (min_db (trimClampDb out))) (Fin (max_db (trimClampDb out))))"

text \<open>
  The same computation with the rounding of its two subtractions and of its addition made
  explicit, and its peak-safety condition. With \<open>rnd = Fin\<close> they are
  \<open>processAudioPremium_trimDb\<close> and \<open>peakSafetyTriggered\<close>.
\<close>

definition processAudioPremium_trimDb_rounded ::
  "(real \<Rightarrow> number) \<Rightarrow> OutputSpec \<Rightarrow> number \<Rightarrow> number \<Rightarrow> number" where
  "processAudioPremium_trimDb_rounded rnd out integrated tpPre =
     (let trimDb = subRounded rnd (Fin (targetIntegratedLUFS out)) integrated;
          predictedTP = addRounded rnd tpPre trimDb;
          trimDb = (if gt predictedTP (Fin (ceilingDbFS out))
                    then Math_min trimDb (subRounded rnd (Fin (ceilingDbFS out)) tpPre)
                    else trimDb)
      in clampNumber trimDb (Fin (min_db (trimClampDb out))) (Fin (max_db (trimClampDb out))))"

definition peakSafetyTriggered_rounded ::
  "(real \<Rightarrow> number) \<Rightarrow> OutputSpec \<Rightarrow> number \<Rightarrow> number \<Rightarrow> bool" where
  "peakSafetyTriggered_rounded rnd out integrated tpPre =
     gt (addRounded rnd tpPre (subRounded rnd (Fin (targetIntegratedLUFS out)) integrated))
        (Fin (ceilingDbFS out))"

text \<open>
  The three steps as the specification words them: the loudness trim, the peak-safety
  override, and the clamp of a value into a range (the nearest bound when the value is
  outside it).
\<close>

definition spec_loudnessTrim :: "OutputSpec \<Rightarrow> number \<Rightarrow> number" where
  "spec_loudnessTrim out measuredIntegratedLUFS =
     sub (Fin (targetIntegratedLUFS out)) measuredIntegratedLUFS"

definition spec_peakSafety :: "OutputSpec \<Rightarrow> number \<Rightarrow> number \<Rightarrow> number" where
  "spec_peakSafety out measuredTruePeak trimDb =
     (if gt (add measuredTruePeak trimDb) (Fin (ceilingDbFS out))
      then Math_min trimDb (sub (Fin (ceilingDbFS out)) measuredTruePeak)
      else trimDb)"

definition spec_clampToRange :: "number \<Rightarrow> number \<Rightarrow> number \<Rightarrow> number" where
  "spec_clampToRange lo hi v = (if lt v lo then lo else if gt v hi then hi else v)"

definition spec_trimDb :: "OutputSpec \<Rightarrow> number \<Rightarrow> number \<Rightarrow> number" where
  "spec_trimDb out measuredIntegratedLUFS measuredTruePeak =
     spec_clampToRange (Fin (min_db (trimClampDb out))) (Fin (max_db (trimClampDb out)))
       (spec_peakSafety out measuredTruePeak (spec_loudnessTrim out measuredIntegratedLUFS))"

text \<open>The peak-safety condition of the source: the predicted peak is above the ceiling.\<close>

definition peakSafetyTriggered :: "OutputSpec \<Rightarrow> number \<Rightarrow> number \<Rightarrow> bool" where
  "peakSafetyTriggered out integrated tpPre =
     gt (add tpPre (sub (Fin (targetIntegratedLUFS out)) integrated)) (Fin (ceilingDbFS out))"

section \<open>Properties of a built spec\<close>

fun strictlyIncreasing :: "real \<times> real \<times> real \<times> real \<Rightarrow> bool" where
  "strictlyIncreasing (x1, x2, x3, x4) = (x1 < x2 \<and> x2 < x3 \<and> x3 < x4)"

text \<open>The gain of an EQ node; a high-pass has none.\<close>

fun gainDb :: "EQNodeSpec \<Rightarrow> real option" where
  "gainDb (hpf f ord q) = None"
| "gainDb (lowshelf f g q) = Some g"
| "gainDb (highshelf f g q) = Some g"
| "gainDb (bell f g q) = Some g"

definition gainInRange :: "EQNodeSpec \<Rightarrow> bool" where
  "gainInRange n = (case gainDb n of None \<Rightarrow> True | Some g \<Rightarrow> -6 \<le> g \<and> g \<le> 6)"

definition hasEqOverride :: "presetKey \<Rightarrow> bool" where
  "hasEqOverride key =
     (case EXACT_PRESETS key of None \<Rightarrow> False | Some e \<Rightarrow> exact_eq e \<noteq> None)"

fun bandList :: "'a \<times> 'a \<times> 'a \<times> 'a \<times> 'a \<Rightarrow> 'a list" where
  "bandList (b1, b2, b3, b4, b5) = [b1, b2, b3, b4, b5]"

definition ratioInRange :: "MultibandBandSpec \<Rightarrow> bool" where
  "ratioInRange b = (1 \<le> ratio b \<and> ratio b \<le> 20)"

section \<open>Audio graph\<close>

text \<open>
  The source builds a Web Audio graph by creating nodes, assigning their parameters and
  calling \<open>connect\<close>. A node is modelled by its kind, the values assigned to its
  parameters and the list of nodes connected to its input, in the order of the
  \<open>connect\<close> calls (a Web Audio input sums everything connected to it). A parameter
  the source does not assign has the default of the Web Audio API (gain 0 for a biquad
  filter, gain 1 for a gain node). What a node does to the samples is the browser's part
  and is not modelled: the graph is a description of the wiring.

  The filter kinds are the \<open>type\<close> strings of a \<open>BiquadFilterNode\<close>, capitalised
  to keep them apart from the tags of \<open>EQNodeSpec\<close>. The parameters of
  \<open>DynamicsCompressorNode\<close> are threshold, knee, ratio, attack and release.
  \<open>ChannelSplitterOutput k\<close> is output \<open>k\<close> of a channel splitter, and
  \<open>ChannelMergerNode\<close> carries what is connected to its inputs 0 and 1.
\<close>

datatype BiquadFilterType = Highpass | Lowpass | Lowshelf | Highshelf | Peaking

datatype AudioNode =
    BufferSource
  | BiquadFilterNode BiquadFilterType real real real "AudioNode list"
  | DynamicsCompressorNode real real real real real "AudioNode list"
  | GainNode real "AudioNode list"
  | ChannelSplitterOutput nat "AudioNode list"
  | ChannelMergerNode "AudioNode list" "AudioNode list"

text \<open>The nodes connected to the input (or inputs) of a node.\<close>

fun inputsOf :: "AudioNode \<Rightarrow> AudioNode list" where
  "inputsOf BufferSource = []"
| "inputsOf (BiquadFilterNode _ _ _ _ ins) = ins"
| "inputsOf (DynamicsCompressorNode _ _ _ _ _ ins) = ins"
| "inputsOf (GainNode _ ins) = ins"
| "inputsOf (ChannelSplitterOutput _ ins) = ins"
| "inputsOf (ChannelMergerNode ins0 ins1) = ins0 @ ins1"

text \<open>
  \<open>upstream n\<close> lists \<open>n\<close> and every node whose output reaches the input of \<open>n\<close>,
  directly or through other nodes. A Web Audio node has no input that is only listened to:
  the output of \<open>n\<close> is computed from the signals of all the nodes upstream of it.
\<close>

fun upstream :: "AudioNode \<Rightarrow> AudioNode list" where
  "upstream BufferSource = [BufferSource]"
| "upstream (BiquadFilterNode ty f q g ins) =
     BiquadFilterNode ty f q g ins # concat (map upstream ins)"
| "upstream (DynamicsCompressorNode th kn ra att rel ins) =
     DynamicsCompressorNode th kn ra att rel ins # concat (map upstream ins)"
| "upstream (GainNode g ins) = GainNode g ins # concat (map upstream ins)"
| "upstream (ChannelSplitterOutput k ins) =
     ChannelSplitterOutput k ins # concat (map upstream ins)"
| "upstream (ChannelMergerNode ins0 ins1) =
     ChannelMergerNode ins0 ins1 # concat (map upstream ins0) @ concat (map upstream ins1)"

text \<open>\<open>x ?? d\<close> of the source.\<close>

fun orElse :: "'a option \<Rightarrow> 'a \<Rightarrow> 'a" where
  "orElse (Some x) d = x"
| "orElse None d = d"

text \<open>
  The test \<open>if (x)\<close> on an optional number is false when the number is absent and
  when it is 0; \<open>whenTruthy x\<close> is the number when the test succeeds.
\<close>

fun whenTruthy :: "real option \<Rightarrow> real option" where
  "whenTruthy (Some x) = (if x \<noteq> 0 then Some x else None)"
| "whenTruthy None = None"

fun applyFilterChain :: "AudioNode \<Rightarrow> EQNodeSpec list \<Rightarrow> AudioNode" where
  "applyFilterChain chain [] = chain"
| "applyFilterChain chain (hpf f ord q # rest) =
     (let hp1 = BiquadFilterNode Highpass f (orElse q 0.707) 0 [chain];
          chain' = (if ord = Some 2
                    then BiquadFilterNode Highpass f (orElse q 0.707) 0 [hp1]
                    else hp1)
      in applyFilterChain chain' rest)"
| "applyFilterChain chain (lowshelf f g q # rest) =
     applyFilterChain (BiquadFilterNode Lowshelf f (orElse q 1.0) g [chain]) rest"
| "applyFilterChain chain (highshelf f g q # rest) =
     applyFilterChain (BiquadFilterNode Highshelf f (orElse q 0.7) g [chain]) rest"
| "applyFilterChain chain (bell f g q # rest) =
     applyFilterChain (BiquadFilterNode Peaking f q g [chain]) rest"

definition makeLP :: "real \<Rightarrow> AudioNode list \<Rightarrow> AudioNode" where
  "makeLP f ins = BiquadFilterNode Lowpass f 0.707 0 ins"

definition makeHP :: "real \<Rightarrow> AudioNode list \<Rightarrow> AudioNode" where
  "makeHP f ins = BiquadFilterNode Highpass f 0.707 0 ins"

fun createBandSplit :: "AudioNode \<Rightarrow> real \<times> real \<times> real \<times> real \<Rightarrow> AudioNode list" where
  "createBandSplit input (x1, x2, x3, x4) =
     (let low = makeLP x1 [input];
          lowMidHP = makeHP x1 [input];
          lowMidLP = makeLP x2 [lowMidHP];
          midHP = makeHP x2 [input];
          midLP = makeLP x3 [midHP];
          highMidHP = makeHP x3 [input];
          highMidLP = makeLP x4 [highMidHP];
          high = makeHP x4 [input]
      in [low, lowMidLP, midLP, highMidLP, high])"

definition bandCompressor :: "AudioNode \<Rightarrow> MultibandBandSpec \<Rightarrow> AudioNode" where
  "bandCompressor bandNode b =
     DynamicsCompressorNode (thresholdDb b) (kneeDb b) (clamp (ratio b) 1.0 20.0)
       (clamp (attackSec b) 0.001 0.25) (clamp (releaseSec b) 0.03 0.5) [bandNode]"

definition applyMultiband :: "AudioNode \<Rightarrow> MultibandSpec \<Rightarrow> AudioNode" where
  "applyMultiband input spec =
     GainNode 1 (map2 bandCompressor (createBandSplit input (xoversHz spec))
                                     (bandList (bands spec)))"

definition applyBusComp :: "AudioNode \<Rightarrow> BusCompSpec option \<Rightarrow> AudioNode" where
  "applyBusComp input spec =
     (case spec of
        None \<Rightarrow> input
      | Some sp \<Rightarrow>
          if \<not> enabled sp then input
          else
            let node = (case whenTruthy (sidechainHpfHz sp) of
                          Some f \<Rightarrow> BiquadFilterNode Highpass f 0.707 0 [input]
                        | None \<Rightarrow> input)
            in DynamicsCompressorNode (thresholdDb sp) (kneeDb sp) (clamp (ratio sp) 1.0 20.0)
                 (clamp (attackSec sp) 0.001 0.25) (clamp (releaseSec sp) 0.03 0.5) [node])"

definition applyStereoShaping :: "AudioNode \<Rightarrow> StereoSpec \<Rightarrow> nat \<Rightarrow> AudioNode" where
  "applyStereoShaping input st numChannels =
     (if numChannels < 2 then input
      else
        let L = GainNode 1 [ChannelSplitterOutput 0 [input]];
            R = GainNode 1 [ChannelSplitterOutput 1 [input]];
            mid = GainNode 0.5 [L, R];
            invR = GainNode (-1) [R];
            side = GainNode 0.5 [L, invR];
            overallWidth = clamp (orElse (overallWidth st) 100 / 100) 0.5 1.6;
            sideScaled = GainNode overallWidth [side];
            sideInv = GainNode (-1) [sideScaled];
            lp = map_option (\<lambda>f. BiquadFilterNode Lowpass f 0.707 0 [side])
                   (whenTruthy (monoBelowHz st));
            monoL = (case lp of Some n \<Rightarrow> [GainNode (-1) [n]] | None \<Rightarrow> []);
            monoR = (case lp of Some n \<Rightarrow> [GainNode 1 [n]] | None \<Rightarrow> []);
            highL = (case widthHighOnly st of
                       None \<Rightarrow> []
                     | Some w \<Rightarrow>
                         let hp = BiquadFilterNode Highpass (freq w) 0.707 0 [side];
                             targetWidth = clamp (width w / 100) 0.5 1.8;
                             extra = targetWidth - overallWidth
                         in if \<bar>extra\<bar> > 0.01 then [GainNode extra [hp]] else []);
            highR = map (\<lambda>extraGain. GainNode (-1) [extraGain]) highL;
            outL = GainNode 1 ([mid, sideScaled] @ monoL @ highL);
            outR = GainNode 1 ([mid, sideInv] @ monoR @ highR)
        in ChannelMergerNode [outL] [outR])"

definition applyLimiterAndCeiling :: "AudioNode \<Rightarrow> OutputSpec \<Rightarrow> real \<Rightarrow> AudioNode" where
  "applyLimiterAndCeiling input out trimDb =
     (let trim = GainNode (dbToLin trimDb) [input];
          lim = DynamicsCompressorNode (thresholdDb (limiter out)) (kneeDb (limiter out))
                  (ratio (limiter out)) (attackSec (limiter out)) (releaseSec (limiter out))
                  [trim]
      in GainNode (dbToLin (ceilingDbFS out)) [lim])"

datatype RenderMode = preOutput | final

text \<open>The warmth node of \<open>renderPresetGraph\<close>, fed by \<open>tuned\<close>.\<close>

definition warmthTrim :: "AudioNode \<Rightarrow> AudioNode" where
  "warmthTrim tuned = BiquadFilterNode Peaking 400 1.2 (-2) [tuned]"

text \<open>
  \<open>renderPresetGraph\<close> builds the graph and renders it. The model returns the node
  that the source connects to the destination of the offline context; rendering it is
  \<open>startRendering\<close>, a parameter of the orchestrator below. \<open>numChannels\<close> is
  \<open>audioBuffer.numberOfChannels\<close>.
\<close>

definition renderPresetGraph ::
  "nat \<Rightarrow> PresetDSP \<Rightarrow> bool \<Rightarrow> RenderMode \<Rightarrow> real \<Rightarrow> AudioNode" where
  "renderPresetGraph numChannels dsp useAutoTune mode trimDb =
     (let src = BufferSource;
          safetyHPF = BiquadFilterNode Highpass 30 0.707 0 [src];
          eqOut = applyFilterChain safetyHPF (eq dsp);
          tuned = (if special dsp = Some ''bigcappo'' \<or> useAutoTune
                   then warmthTrim eqOut else eqOut);
          busOut = applyBusComp tuned (busComp dsp);
          mbOut = applyMultiband busOut (multiband dsp);
          stereoOut = applyStereoShaping mbOut (stereo dsp) numChannels
      in case mode of
           preOutput \<Rightarrow> stereoOut
         | final \<Rightarrow> applyLimiterAndCeiling stereoOut (output dsp) trimDb)"

section \<open>Audio buffers\<close>

text \<open>
  An \<open>AudioBuffer\<close>: \<open>getChannelData b c i\<close> is sample \<open>i\<close> of channel \<open>c\<close>.
  Every channel of a buffer has \<open>bufferLength\<close> samples (\<open>length\<close> in the source);
  the functions below read a sample only at \<open>c < numberOfChannels b\<close> and
  \<open>i < bufferLength b\<close>. Sample rates are whole numbers of frames per second.

  \<open>AudioBuffer\<close> is a buffer whose samples are finite. The samples of a
  \<open>number SampleBuffer\<close> may also be infinite or NaN, as the elements of a
  \<open>Float32Array\<close> may be.
\<close>

record 'a SampleBuffer =
  sampleRate :: nat
  bufferLength :: nat
  numberOfChannels :: nat
  getChannelData :: "nat \<Rightarrow> nat \<Rightarrow> 'a"

type_synonym AudioBuffer = "real SampleBuffer"

section \<open>Loudness and true peak\<close>

text \<open>The loop over \<open>k\<close>: \<open>for (let k = 1; k < oversample; k++)\<close>.\<close>

definition oversampleLoop :: "real \<Rightarrow> real \<Rightarrow> real \<Rightarrow> real \<Rightarrow> real" where
  "oversampleLoop oversample a b peak =
     fold (\<lambda>k peak.
             let t = real k / oversample;
                 s = a + (b - a) * t
             in max peak \<bar>s\<bar>)
          [1 ..< nat \<lceil>oversample\<rceil>] peak"

definition channelPeak :: "real \<Rightarrow> (nat \<Rightarrow> real) \<Rightarrow> nat \<Rightarrow> real \<Rightarrow> real" where
  "channelPeak oversample data len peak =
     fold (\<lambda>i peak.
             let a = data i;
                 b = data (i + 1);
                 peak = max (max peak \<bar>a\<bar>) \<bar>b\<bar>
             in oversampleLoop oversample a b peak)
          [0 ..< len - 1] peak"

definition estimateTruePeakDbFS :: "AudioBuffer \<Rightarrow> real \<Rightarrow> real" where
  "estimateTruePeakDbFS buffer oversample =
     (let ch = numberOfChannels buffer;
          len = bufferLength buffer;
          peak = fold (\<lambda>c peak. channelPeak oversample (getChannelData buffer c) len peak)
                      [0 ..< ch] 0
      in linToDb peak)"

text \<open>
  \<open>estimateTruePeakDbFS\<close> on a buffer whose samples may be infinite or NaN: the same
  loops, with the operations of \<open>number\<close>. On finite samples it agrees with
  \<open>estimateTruePeakDbFS\<close> (\<open>estimateTruePeakDbFS_number_finite\<close> below).
\<close>

definition linToDb_number :: "number \<Rightarrow> number" where
  "linToDb_number lin = mul (Fin 20) (Math_log10 (Math_max (Fin (1 / 10 ^ 12)) lin))"

definition oversampleLoop_number :: "real \<Rightarrow> number \<Rightarrow> number \<Rightarrow> number \<Rightarrow> number" where
  "oversampleLoop_number oversample a b peak =
     fold (\<lambda>k peak.
             let t = Fin (real k / oversample);
                 s = add a (mul (sub b a) t)
             in Math_max peak (Math_abs s))
          [1 ..< nat \<lceil>oversample\<rceil>] peak"

definition channelPeak_number :: "real \<Rightarrow> (nat \<Rightarrow> number) \<Rightarrow> nat \<Rightarrow> number \<Rightarrow> number" where
  "channelPeak_number oversample data len peak =
     fold (\<lambda>i peak.
             let a = data i;
                 b = data (i + 1);
                 peak = Math_max (Math_max peak (Math_abs a)) (Math_abs b)
             in oversampleLoop_number oversample a b peak)
          [0 ..< len - 1] peak"

definition estimateTruePeakDbFS_number :: "number SampleBuffer \<Rightarrow> real \<Rightarrow> number" where
  "estimateTruePeakDbFS_number buffer oversample =
     (let ch = numberOfChannels buffer;
          len = bufferLength buffer;
          peak = fold (\<lambda>c peak.
                         channelPeak_number oversample (getChannelData buffer c) len peak)
                      [0 ..< ch] (Fin 0)
      in linToDb_number peak)"

text \<open>
  A buffer has finite samples when every sample of every channel is a finite number;
  \<open>finitePart\<close> is then the buffer itself, with real samples.
\<close>

definition finiteSamples :: "number SampleBuffer \<Rightarrow> bool" where
  "finiteSamples buffer =
     (\<forall>c < numberOfChannels buffer. \<forall>i < bufferLength buffer.
        \<exists>x. getChannelData buffer c i = Fin x)"

fun realOf :: "number \<Rightarrow> real" where
  "realOf (Fin x) = x"
| "realOf _ = 0"

definition finitePart :: "number SampleBuffer \<Rightarrow> AudioBuffer" where
  "finitePart buffer =
     \<lparr> sampleRate = sampleRate buffer, bufferLength = bufferLength buffer,
       numberOfChannels = numberOfChannels buffer,
       getChannelData = (\<lambda>c i. realOf (getChannelData buffer c i)) \<rparr>"

definition lufsBlocksToMeanSquare :: "real list \<Rightarrow> real" where
  "lufsBlocksToMeanSquare blockLUFS =
     (let msVals = map (\<lambda>l. 10 powr ((l + 0.691) / 10)) blockLUFS
      in foldl (\<lambda>a b. a + b) 0 msVals / real (length msVals))"

definition blockLen :: "AudioBuffer \<Rightarrow> nat" where
  "blockLen buffer = max 1 (nat \<lfloor>real (sampleRate buffer) * 0.400\<rfloor>)"

definition step :: "AudioBuffer \<Rightarrow> nat" where
  "step buffer = max 1 (nat \<lfloor>real (sampleRate buffer) * 0.100\<rfloor>)"

text \<open>
  The body of the loop over \<open>start\<close>: the loudness of the block that starts at
  \<open>start\<close>. For a buffer without channels the source computes NaN here (0 / 0), and
  the absolute gate then rejects the block, as it rejects the value -120.691 that the
  model computes in that case.
\<close>

definition blockLUFS :: "AudioBuffer \<Rightarrow> nat \<Rightarrow> real" where
  "blockLUFS buffer start =
     (let channels = numberOfChannels buffer;
          sum = fold (\<lambda>c sum.
                        let data = getChannelData buffer c;
                            s = fold (\<lambda>i s. let x = data i in s + x * x)
                                     [start ..< start + blockLen buffer] 0
                        in sum + s / real (blockLen buffer))
                     [0 ..< channels] 0;
          meanSquare = sum / real channels
      in -0.691 + 10 * log 10 (max (1 / 10 ^ 12) meanSquare))"

function blockLoop :: "AudioBuffer \<Rightarrow> nat \<Rightarrow> real list" where
  "blockLoop buffer start =
     (if start + blockLen buffer \<le> bufferLength buffer
      then blockLUFS buffer start # blockLoop buffer (start + step buffer)
      else [])"
  by pat_completeness auto
termination
  by (relation "measure (\<lambda>(buffer, start). bufferLength buffer - start)")
     (auto simp: blockLen_def step_def)

declare blockLoop.simps [simp del]

definition absGateLUFS :: real where
  "absGateLUFS = -70.0"

definition integratedLUFS_R128Gated :: "AudioBuffer \<Rightarrow> number" where
  "integratedLUFS_R128Gated buffer =
     (let blocks = blockLoop buffer 0
      in if blocks = [] then NegInfinity
         else
           let absGated = filter (\<lambda>l. l > absGateLUFS) blocks
           in if absGated = [] then Fin absGateLUFS
              else
                let ungatedMs = lufsBlocksToMeanSquare absGated;
                    ungatedLUFS = -0.691 + 10 * log 10 (max (1 / 10 ^ 12) ungatedMs);
                    relGate = ungatedLUFS - 10.0;
                    relGated = filter (\<lambda>l. l > relGate) absGated
                in if relGated = [] then Fin ungatedLUFS
                   else
                     let gatedMs = lufsBlocksToMeanSquare relGated
                     in Fin (-0.691 + 10 * log 10 (max (1 / 10 ^ 12) gatedMs)))"

text \<open>The intermediate values of \<open>integratedLUFS_R128Gated\<close>, by name.\<close>

definition absGated :: "AudioBuffer \<Rightarrow> real list" where
  "absGated buffer = filter (\<lambda>l. l > absGateLUFS) (blockLoop buffer 0)"

definition ungatedLUFS :: "AudioBuffer \<Rightarrow> real" where
  "ungatedLUFS buffer =
     -0.691 + 10 * log 10 (max (1 / 10 ^ 12) (lufsBlocksToMeanSquare (absGated buffer)))"

definition relGated :: "AudioBuffer \<Rightarrow> real list" where
  "relGated buffer = filter (\<lambda>l. l > ungatedLUFS buffer - 10.0) (absGated buffer)"

definition gatedLUFS :: "AudioBuffer \<Rightarrow> real" where
  "gatedLUFS buffer =
     -0.691 + 10 * log 10 (max (1 / 10 ^ 12) (lufsBlocksToMeanSquare (relGated buffer)))"

definition allZero :: "AudioBuffer \<Rightarrow> bool" where
  "allZero buffer =
     (\<forall>c < numberOfChannels buffer. \<forall>i < bufferLength buffer. getChannelData buffer c i = 0)"

text \<open>
  The largest absolute value among the samples of a buffer
  (for a buffer with a channel and a sample).
\<close>

definition samplePeak :: "AudioBuffer \<Rightarrow> real" where
  "samplePeak buffer =
     Max ((\<lambda>c. Max ((\<lambda>i. \<bar>getChannelData buffer c i\<bar>) ` {..< bufferLength buffer}))
            ` {..< numberOfChannels buffer})"

section \<open>Two-pass orchestrator\<close>

text \<open>
  \<open>startRendering graph buffer\<close> stands for the offline render of \<open>buffer\<close> through
  \<open>graph\<close>, which the browser performs.
\<close>

definition kWeighting :: AudioNode where
  "kWeighting =
     BiquadFilterNode Highshelf 4000 0.707 4.0 [BiquadFilterNode Highpass 60 0.707 0 [BufferSource]]"

definition computeIntegratedLUFS_KWeighted ::
  "(AudioNode \<Rightarrow> AudioBuffer \<Rightarrow> AudioBuffer) \<Rightarrow> AudioBuffer \<Rightarrow> number" where
  "computeIntegratedLUFS_KWeighted startRendering buffer =
     integratedLUFS_R128Gated (startRendering kWeighting buffer)"

text \<open>
  The result is \<open>None\<close> when the second render cannot be set up: a trim that is not a
  finite number cannot be assigned to the gain of the trim node.
\<close>

definition processAudioPremium ::
  "(AudioNode \<Rightarrow> AudioBuffer \<Rightarrow> AudioBuffer) \<Rightarrow> AudioBuffer \<Rightarrow> presetKey \<Rightarrow> bool
     \<Rightarrow> AudioBuffer option" where
  "processAudioPremium startRendering audioBuffer presetKey useAutoTune =
     (let dsp = buildDSPForPreset presetKey;
          pre = startRendering
                  (renderPresetGraph (numberOfChannels audioBuffer) dsp useAutoTune preOutput 0)
                  audioBuffer;
          integrated = computeIntegratedLUFS_KWeighted startRendering pre;
          tpPre = estimateTruePeakDbFS pre 4;
          trimDb = processAudioPremium_trimDb (output dsp) integrated (Fin tpPre)
      in case trimDb of
           Fin t \<Rightarrow>
             Some (startRendering
                     (renderPresetGraph (numberOfChannels audioBuffer) dsp useAutoTune final t)
                     audioBuffer)
         | _ \<Rightarrow> None)"

section \<open>WAV export\<close>

text \<open>
  An \<open>ArrayBuffer\<close> seen through its \<open>DataView\<close>: a size and the byte at each offset.
  A write outside the buffer raises RangeError in the source and is \<open>None\<close> here.
  The integer setters store their argument modulo the width of the field, low byte
  first (every call of the source passes \<open>true\<close> for \<open>littleEndian\<close>).
\<close>

record ArrayBuffer =
  byteLength :: nat
  bytes :: "nat \<Rightarrow> 8 word"

definition newArrayBuffer :: "nat \<Rightarrow> ArrayBuffer" where
  "newArrayBuffer n = \<lparr> byteLength = n, bytes = (\<lambda>_. 0) \<rparr>"

text \<open>Byte \<open>k\<close> of a number, counted from the low end.\<close>

definition byteOf :: "nat \<Rightarrow> nat \<Rightarrow> 8 word" where
  "byteOf n k = of_nat ((n div 256 ^ k) mod 256)"

text \<open>
  The bytes that a setter stores: an integer of one, two or four bytes at \<open>offset\<close>,
  reduced modulo the width of the field.
\<close>

definition put8 :: "nat \<Rightarrow> nat \<Rightarrow> (nat \<Rightarrow> 8 word) \<Rightarrow> nat \<Rightarrow> 8 word" where
  "put8 offset v f = f (offset := byteOf (v mod 2 ^ 8) 0)"

definition put16 :: "nat \<Rightarrow> nat \<Rightarrow> (nat \<Rightarrow> 8 word) \<Rightarrow> nat \<Rightarrow> 8 word" where
  "put16 offset v f =
     f (offset := byteOf (v mod 2 ^ 16) 0,
        offset + 1 := byteOf (v mod 2 ^ 16) 1)"

definition put32 :: "nat \<Rightarrow> nat \<Rightarrow> (nat \<Rightarrow> 8 word) \<Rightarrow> nat \<Rightarrow> 8 word" where
  "put32 offset v f =
     f (offset := byteOf (v mod 2 ^ 32) 0,
        offset + 1 := byteOf (v mod 2 ^ 32) 1,
        offset + 2 := byteOf (v mod 2 ^ 32) 2,
        offset + 3 := byteOf (v mod 2 ^ 32) 3)"

definition setUint8 :: "ArrayBuffer \<Rightarrow> nat \<Rightarrow> nat \<Rightarrow> ArrayBuffer option" where
  "setUint8 view offset v =
     (if offset + 1 \<le> byteLength view
      then Some (view \<lparr> bytes := put8 offset v (bytes view) \<rparr>)
      else None)"

definition setUint16 :: "ArrayBuffer \<Rightarrow> nat \<Rightarrow> nat \<Rightarrow> ArrayBuffer option" where
  "setUint16 view offset v =
     (if offset + 2 \<le> byteLength view
      then Some (view \<lparr> bytes := put16 offset v (bytes view) \<rparr>)
      else None)"

definition setUint32 :: "ArrayBuffer \<Rightarrow> nat \<Rightarrow> nat \<Rightarrow> ArrayBuffer option" where
  "setUint32 view offset v =
     (if offset + 4 \<le> byteLength view
      then Some (view \<lparr> bytes := put32 offset v (bytes view) \<rparr>)
      else None)"

text \<open>
  \<open>setInt16\<close> receives a number that need not be whole: it drops the fraction
  (rounding towards zero) and stores the two's complement of the result modulo \<open>2 ^ 16\<close>.
\<close>

definition truncateTowardZero :: "real \<Rightarrow> int" where
  "truncateTowardZero x = (if x < 0 then \<lceil>x\<rceil> else \<lfloor>x\<rfloor>)"

definition setInt16 :: "ArrayBuffer \<Rightarrow> nat \<Rightarrow> real \<Rightarrow> ArrayBuffer option" where
  "setInt16 view offset x = setUint16 view offset (nat (truncateTowardZero x mod 2 ^ 16))"

text \<open>Reading a field back, low byte first.\<close>

definition get16 :: "(nat \<Rightarrow> 8 word) \<Rightarrow> nat \<Rightarrow> nat" where
  "get16 f offset = unat (f offset) + 256 * unat (f (offset + 1))"

definition get32 :: "(nat \<Rightarrow> 8 word) \<Rightarrow> nat \<Rightarrow> nat" where
  "get32 f offset =
     unat (f offset) + 256 * unat (f (offset + 1))
       + 256 ^ 2 * unat (f (offset + 2)) + 256 ^ 3 * unat (f (offset + 3))"

definition getUint16 :: "ArrayBuffer \<Rightarrow> nat \<Rightarrow> nat" where
  "getUint16 view offset = get16 (bytes view) offset"

definition getUint32 :: "ArrayBuffer \<Rightarrow> nat \<Rightarrow> nat" where
  "getUint32 view offset = get32 (bytes view) offset"

definition getInt16 :: "ArrayBuffer \<Rightarrow> nat \<Rightarrow> int" where
  "getInt16 view offset =
     (let u = int (getUint16 view offset) in if u < 2 ^ 15 then u else u - 2 ^ 16)"

text \<open>The character codes of the \<open>n\<close> bytes at \<open>offset\<close>.\<close>

definition getString :: "ArrayBuffer \<Rightarrow> nat \<Rightarrow> nat \<Rightarrow> nat list" where
  "getString view offset n = map (\<lambda>i. unat (bytes view (offset + i))) [0 ..< n]"

definition charCodes :: "string \<Rightarrow> nat list" where
  "charCodes s = map of_char s"

fun writeString :: "ArrayBuffer \<Rightarrow> nat \<Rightarrow> string \<Rightarrow> ArrayBuffer option" where
  "writeString view offset [] = Some view"
| "writeString view offset (c # cs) =
     setUint8 view offset (of_char c) \<bind> (\<lambda>view. writeString view (offset + 1) cs)"

text \<open>A counted loop whose body may raise: the first failure ends it.\<close>

fun forEach :: "nat list \<Rightarrow> (nat \<Rightarrow> 's \<Rightarrow> 's option) \<Rightarrow> 's \<Rightarrow> 's option" where
  "forEach [] body s = Some s"
| "forEach (i # rest) body s = body i s \<bind> forEach rest body"

text \<open>The conversion of a sample: the argument that the source passes to \<open>setInt16\<close>.\<close>

definition scaleSample :: "real \<Rightarrow> real" where
  "scaleSample x =
     (let sample = max (-1) (min 1 x)
      in if sample < 0 then sample * 32768 else sample * 32767)"

definition writeSample ::
  "AudioBuffer \<Rightarrow> nat \<Rightarrow> nat \<Rightarrow> ArrayBuffer \<times> nat \<Rightarrow> (ArrayBuffer \<times> nat) option" where
  "writeSample buffer i channel st =
     (case st of (view, offset) \<Rightarrow>
        setInt16 view offset (scaleSample (getChannelData buffer channel i))
          \<bind> (\<lambda>view. Some (view, offset + 2)))"

definition writeFrame ::
  "AudioBuffer \<Rightarrow> nat \<Rightarrow> ArrayBuffer \<times> nat \<Rightarrow> (ArrayBuffer \<times> nat) option" where
  "writeFrame buffer i st = forEach [0 ..< numberOfChannels buffer] (writeSample buffer i) st"

text \<open>
  The source wraps the \<open>ArrayBuffer\<close> in a \<open>Blob\<close> of type audio/wav; the model
  returns the \<open>ArrayBuffer\<close>. The allocation of the buffer is taken to succeed.
\<close>

definition bufferToWav :: "AudioBuffer \<Rightarrow> ArrayBuffer option" where
  "bufferToWav buffer =
     (let numChannels = numberOfChannels buffer;
          len = bufferLength buffer * numChannels * 2;
          view = newArrayBuffer (44 + len)
      in do {
           view \<leftarrow> writeString view 0 ''RIFF'';
           view \<leftarrow> setUint32 view 4 (36 + len);
           view \<leftarrow> writeString view 8 ''WAVE'';
           view \<leftarrow> writeString view 12 ''fmt '';
           view \<leftarrow> setUint32 view 16 16;
           view \<leftarrow> setUint16 view 20 1;
           view \<leftarrow> setUint16 view 22 numChannels;
           view \<leftarrow> setUint32 view 24 (sampleRate buffer);
           view \<leftarrow> setUint32 view 28 (sampleRate buffer * numChannels * 2);
           view \<leftarrow> setUint16 view 32 (numChannels * 2);
           view \<leftarrow> setUint16 view 34 16;
           view \<leftarrow> writeString view 36 ''data'';
           view \<leftarrow> setUint32 view 40 len;
           (view, offset) \<leftarrow> forEach [0 ..< bufferLength buffer] (writeFrame buffer) (view, 44);
           Some view
         })"

text \<open>
  The definitions from here to the end of the section serve the proofs. \<open>writeHeader\<close>
  is the header part of \<open>bufferToWav\<close>, its thirteen writes before the loop over the
  samples (\<open>bufferToWav_split\<close> below relates the two).
\<close>

definition writeHeader :: "AudioBuffer \<Rightarrow> ArrayBuffer option" where
  "writeHeader buffer =
     (let numChannels = numberOfChannels buffer;
          len = bufferLength buffer * numChannels * 2;
          view = newArrayBuffer (44 + len)
      in do {
           view \<leftarrow> writeString view 0 ''RIFF'';
           view \<leftarrow> setUint32 view 4 (36 + len);
           view \<leftarrow> writeString view 8 ''WAVE'';
           view \<leftarrow> writeString view 12 ''fmt '';
           view \<leftarrow> setUint32 view 16 16;
           view \<leftarrow> setUint16 view 20 1;
           view \<leftarrow> setUint16 view 22 numChannels;
           view \<leftarrow> setUint32 view 24 (sampleRate buffer);
           view \<leftarrow> setUint32 view 28 (sampleRate buffer * numChannels * 2);
           view \<leftarrow> setUint16 view 32 (numChannels * 2);
           view \<leftarrow> setUint16 view 34 16;
           view \<leftarrow> writeString view 36 ''data'';
           setUint32 view 40 len
         })"

text \<open>The bytes that \<open>writeString\<close> stores.\<close>

fun putString :: "nat \<Rightarrow> string \<Rightarrow> (nat \<Rightarrow> 8 word) \<Rightarrow> nat \<Rightarrow> 8 word" where
  "putString offset [] f = f"
| "putString offset (c # cs) f = putString (offset + 1) cs (put8 offset (of_char c) f)"

text \<open>
  The data chunk is interleaved: sample slot \<open>j\<close> holds frame \<open>j div C\<close> of channel
  \<open>j mod C\<close>, for \<open>C\<close> channels. \<open>bytesAfter b f n\<close> is the content of a buffer that
  held \<open>f\<close> once the first \<open>n\<close> slots are written, and \<open>dataState\<close> is the state of
  the loop at that moment.
\<close>

definition sampleAt :: "AudioBuffer \<Rightarrow> nat \<Rightarrow> real" where
  "sampleAt b j = getChannelData b (j mod numberOfChannels b) (j div numberOfChannels b)"

definition int16Bits :: "real \<Rightarrow> nat" where
  "int16Bits x = nat (truncateTowardZero x mod 2 ^ 16)"

definition bytesAfter :: "AudioBuffer \<Rightarrow> (nat \<Rightarrow> 8 word) \<Rightarrow> nat \<Rightarrow> nat \<Rightarrow> 8 word" where
  "bytesAfter b f n k =
     (if 44 \<le> k \<and> k < 44 + 2 * n
      then byteOf (int16Bits (scaleSample (sampleAt b ((k - 44) div 2)))) ((k - 44) mod 2)
      else f k)"

definition dataState :: "AudioBuffer \<Rightarrow> ArrayBuffer \<Rightarrow> nat \<Rightarrow> ArrayBuffer \<times> nat" where
  "dataState b v0 n = (v0 \<lparr> bytes := bytesAfter b (bytes v0) n \<rparr>, 44 + 2 * n)"

text \<open>
  The file that \<open>bufferToWav\<close> is shown to produce: the header bytes, as the thirteen
  writes leave them, followed by the samples.
\<close>

definition headerBytes :: "AudioBuffer \<Rightarrow> nat \<Rightarrow> 8 word" where
  "headerBytes b =
     (let numChannels = numberOfChannels b;
          len = bufferLength b * numChannels * 2
      in put32 40 len
          (putString 36 ''data''
            (put16 34 16
              (put16 32 (numChannels * 2)
                (put32 28 (sampleRate b * numChannels * 2)
                  (put32 24 (sampleRate b)
                    (put16 22 numChannels
                      (put16 20 1
                        (put32 16 16
                          (putString 12 ''fmt ''
                            (putString 8 ''WAVE''
                              (put32 4 (36 + len)
                                (putString 0 ''RIFF'' (\<lambda>_. 0))))))))))))))"

definition wavFile :: "AudioBuffer \<Rightarrow> ArrayBuffer" where
  "wavFile b =
     \<lparr> byteLength = 44 + bufferLength b * numberOfChannels b * 2,
       bytes = bytesAfter b (headerBytes b) (bufferLength b * numberOfChannels b) \<rparr>"

text \<open>A field of the file that \<open>bufferToWav\<close> produces.\<close>

definition wavUint32 :: "AudioBuffer \<Rightarrow> nat \<Rightarrow> nat option" where
  "wavUint32 b offset = map_option (\<lambda>view. getUint32 view offset) (bufferToWav b)"

section \<open>Example inputs\<close>

definition twoFiniteSamples :: "number SampleBuffer" where
  "twoFiniteSamples = \<lparr> sampleRate = 44100, bufferLength = 2, numberOfChannels = 1,
                        getChannelData = (\<lambda>c i. if i = 0 then Fin (1 / 2) else Fin (- 1)) \<rparr>"

text \<open>One channel with the samples \<open>Infinity\<close> and 0.\<close>

definition infiniteFirstSample :: "number SampleBuffer" where
  "infiniteFirstSample = \<lparr> sampleRate = 44100, bufferLength = 2, numberOfChannels = 1,
                           getChannelData = (\<lambda>c i. if i = 0 then PosInfinity else Fin 0) \<rparr>"

definition silentTwoSeconds :: AudioBuffer where
  "silentTwoSeconds = \<lparr> sampleRate = 44100, bufferLength = 88200, numberOfChannels = 1,
                        getChannelData = (\<lambda>c i. 0) \<rparr>"

definition silentTenthOfSecond :: AudioBuffer where
  "silentTenthOfSecond = \<lparr> sampleRate = 44100, bufferLength = 4410, numberOfChannels = 1,
                           getChannelData = (\<lambda>c i. 0) \<rparr>"

definition tinyStereo :: AudioBuffer where
  "tinyStereo = \<lparr> sampleRate = 44100, bufferLength = 2, numberOfChannels = 2,
                  getChannelData = (\<lambda>c i. if c = 0 then (if i = 0 then 1 / 2 else - 1)
                                          else (if i = 0 then 3 else - 1 / 4)) \<rparr>"

definition silentStereo :: AudioBuffer where
  "silentStereo = \<lparr> sampleRate = 48000, bufferLength = 3, numberOfChannels = 2,
                    getChannelData = (\<lambda>c i. 0) \<rparr>"

text \<open>
  Two buffers whose PCM data needs \<open>2 ^ 32\<close> bytes: \<open>2 ^ 30\<close> stereo frames, and
  \<open>2 ^ 31\<close> silent mono frames.
\<close>

definition hugeStereo :: AudioBuffer where
  "hugeStereo = \<lparr> sampleRate = 48000, bufferLength = 2 ^ 30, numberOfChannels = 2,
                  getChannelData = (\<lambda>c i. 1 / 2) \<rparr>"

definition hugeSilentMono :: AudioBuffer where
  "hugeSilentMono = \<lparr> sampleRate = 44100, bufferLength = 2 ^ 31, numberOfChannels = 1,
                      getChannelData = (\<lambda>c i. 0) \<rparr>"

definition fullScaleBlock :: AudioBuffer where
  "fullScaleBlock = \<lparr> sampleRate = 10, bufferLength = 4, numberOfChannels = 1,
                      getChannelData = (\<lambda>c i. 1) \<rparr>"

section \<open>Verification: spec builder and trim\<close>

subsection \<open>The clamp\<close>

lemma clamp_mono: "a \<le> b \<Longrightarrow> clamp a mn mx \<le> clamp b mn mx"
  by (simp add: clamp_def max_def min_def)

lemma clamp_bounds: "mn \<le> mx \<Longrightarrow> mn \<le> clamp v mn mx \<and> clamp v mn mx \<le> mx"
  by (simp add: clamp_def)

subsection \<open>Slider-derived ratios\<close>

lemma ratios_ordered:
  "lowMidRatio s \<le> lowRatio s \<and> midRatio s \<le> lowMidRatio s
   \<and> highMidRatio s \<le> midRatio s \<and> highRatio s \<le> highMidRatio s"
  unfolding lowRatio_def lowMidRatio_def midRatio_def highMidRatio_def highRatio_def Let_def clamp_def
  by (auto simp: max_def min_def)

lemma ratios_mono:
  assumes "s \<le> s'"
  shows "lowRatio s \<le> lowRatio s'" "lowMidRatio s \<le> lowMidRatio s'"
    "midRatio s \<le> midRatio s'" "highMidRatio s \<le> highMidRatio s'" "highRatio s \<le> highRatio s'"
  using assms clamp_mono [of s s' "1.5" 7]
  unfolding lowRatio_def lowMidRatio_def midRatio_def highMidRatio_def highRatio_def Let_def
  by (auto intro!: clamp_mono)

lemma slider_ratios:
  "map ratio (bandList (bands (sliderMultiband s)))
     = [lowRatio s, lowMidRatio s, midRatio s, highMidRatio s, highRatio s]"
  by (simp add: sliderMultiband_def band_def)

text \<open>
  Claim C8. For every value \<open>s\<close> of the compression slider (which \<open>buildDSPForPreset\<close>
  clamps to [1.5, 7] first), the ratios of the five slider-derived bands are ordered from
  the low band to the high band, low >= lowMid >= mid >= highMid >= high, and each of
  them is a non-decreasing function of the slider: for \<open>s \<le> s'\<close> the ratio of every
  band at \<open>s\<close> is at most its ratio at \<open>s'\<close>.
\<close>

theorem slider_ratios_ordered_and_monotone:
  "sorted_wrt (\<lambda>a b. a \<ge> b) (map ratio (bandList (bands (sliderMultiband s))))
   \<and> (s \<le> s' \<longrightarrow> list_all2 (\<le>) (map ratio (bandList (bands (sliderMultiband s))))
                                  (map ratio (bandList (bands (sliderMultiband s')))))"
  using ratios_ordered [of s] ratios_mono [of s s']
  by (auto simp: slider_ratios)

text \<open>
  The sliders 2 and 6: the ratios are 2.7, 2.16, 1.54, 1.4, 1.36 and
  4.5, 3.28, 2.0, 1.8, 1.6.
\<close>

theorem slider_ratios_ordered_and_monotone_witness:
  "(2::real) \<le> 6
   \<and> map ratio (bandList (bands (sliderMultiband 2))) = [2.7, 2.16, 1.54, 1.4, 1.36]
   \<and> map ratio (bandList (bands (sliderMultiband 6))) = [4.5, 3.28, 2.0, 1.8, 1.6]
   \<and> list_all2 (\<le>) (map ratio (bandList (bands (sliderMultiband 2))))
                     (map ratio (bandList (bands (sliderMultiband 6))))"
  using slider_ratios_ordered_and_monotone [of 2 6]
  by (simp add: slider_ratios lowRatio_def lowMidRatio_def midRatio_def highMidRatio_def
      highRatio_def clamp_def)

lemma slider_ratios_in_range:
  "b \<in> set (bandList (bands (sliderMultiband s))) \<Longrightarrow> ratioInRange b"
  using clamp_bounds [of "1.6" 5 "1.8 + clamp s 1.5 7 * 0.45"]
    clamp_bounds [of "1.4" "3.5" "1.6 + clamp s 1.5 7 * 0.28"]
    clamp_bounds [of "1.2" "2.0" "1.3 + clamp s 1.5 7 * 0.12"]
    clamp_bounds [of "1.2" "1.8" "1.2 + clamp s 1.5 7 * 0.10"]
    clamp_bounds [of "1.2" "1.6" "1.2 + clamp s 1.5 7 * 0.08"]
  by (auto simp: sliderMultiband_def band_def ratioInRange_def lowRatio_def lowMidRatio_def
      midRatio_def highMidRatio_def highRatio_def Let_def)

lemma xovers_sliderMultiband: "xoversHz (sliderMultiband s) = MB_XOVERS"
  by (simp add: sliderMultiband_def)

subsection \<open>The fields of a built spec\<close>

lemma multiband_buildDSP:
  "multiband (buildDSPForPreset key) =
     (case EXACT_PRESETS key of
        None \<Rightarrow> sliderMultiband (compression (presets key))
      | Some e \<Rightarrow> (case exact_multiband e of Some x \<Rightarrow> x
                   | None \<Rightarrow> sliderMultiband (compression (presets key))))"
  by (simp add: buildDSPForPreset_def Let_def split: option.splits)

lemma output_buildDSP:
  "output (buildDSPForPreset key) =
     (case EXACT_PRESETS key of
        None \<Rightarrow> UNIVERSAL_OUTPUT
      | Some e \<Rightarrow> (case exact_output e of Some x \<Rightarrow> x | None \<Rightarrow> UNIVERSAL_OUTPUT))"
  by (simp add: buildDSPForPreset_def Let_def split: option.splits)

lemma eq_buildDSP:
  "\<not> hasEqOverride key \<Longrightarrow> eq (buildDSPForPreset key) =
      [ hpf 30 (Some 2) (Some 0.707),
        lowshelf 120 (clamp (bass (presets key)) (-6) 6) (Some 1.0),
        bell 1500 (clamp (mid (presets key)) (-6) 6) 1.1,
        highshelf 12000 (clamp (high (presets key)) (-6) 6) (Some 0.7) ]"
  by (simp add: buildDSPForPreset_def hasEqOverride_def Let_def split: option.splits)

lemma xovers_buildDSP: "xoversHz (multiband (buildDSPForPreset key)) = MB_XOVERS"
  by (cases key) (simp_all add: multiband_buildDSP noExact_def xovers_sliderMultiband)

lemma ratios_buildDSP:
  "b \<in> set (bandList (bands (multiband (buildDSPForPreset key)))) \<Longrightarrow> ratioInRange b"
  by (cases key)
    (auto simp: multiband_buildDSP noExact_def band_def ratioInRange_def
       dest: slider_ratios_in_range)

lemma ceiling_buildDSP: "ceilingDbFS (output (buildDSPForPreset key)) = -0.5"
  by (cases key)
    (simp_all add: output_buildDSP noExact_def UNIVERSAL_OUTPUT_def withLimiterThreshold_def)

lemma trimClamp_buildDSP:
  "trimClampDb (output (buildDSPForPreset key)) = \<lparr> min_db = -24, max_db = 12 \<rparr>"
  by (cases key)
    (simp_all add: output_buildDSP noExact_def UNIVERSAL_OUTPUT_def withLimiterThreshold_def)

lemma target_buildDSP: "targetIntegratedLUFS (output (buildDSPForPreset key)) = -14"
  by (cases key)
    (simp_all add: output_buildDSP noExact_def UNIVERSAL_OUTPUT_def withLimiterThreshold_def)

lemma gains_buildDSP:
  "\<not> hasEqOverride key \<Longrightarrow> n \<in> set (eq (buildDSPForPreset key)) \<Longrightarrow> gainInRange n"
  using clamp_bounds [of "-6" 6]
  by (auto simp: eq_buildDSP gainInRange_def)

text \<open>
  Claim C3. For every preset key of the catalog, the spec that \<open>buildDSPForPreset\<close>
  returns has strictly increasing crossover frequencies, a ratio in [1, 20] for each of its
  five bands, a ceiling of at most 0 dBFS and, when the preset has no hand-authored EQ
  override, an EQ whose gains all lie in [-6, +6] dB.
\<close>

theorem buildDSPForPreset_invariants:
  "strictlyIncreasing (xoversHz (multiband (buildDSPForPreset key)))
   \<and> (\<forall>b \<in> set (bandList (bands (multiband (buildDSPForPreset key)))). ratioInRange b)
   \<and> ceilingDbFS (output (buildDSPForPreset key)) \<le> 0
   \<and> (\<not> hasEqOverride key \<longrightarrow> (\<forall>n \<in> set (eq (buildDSPForPreset key)). gainInRange n))"
  using ratios_buildDSP [of _ key] gains_buildDSP [of key]
  by (simp add: xovers_buildDSP MB_XOVERS_def ceiling_buildDSP)

text \<open>
  The preset \<open>bigcappo\<close> has an exact entry, but no EQ override: its EQ and its
  ratios come from its sliders.
\<close>

theorem buildDSPForPreset_invariants_witness:
  "\<not> hasEqOverride bigcappo
   \<and> eq (buildDSPForPreset bigcappo) =
       [hpf 30 (Some 2) (Some 0.707), lowshelf 120 3 (Some 1), bell 1500 4 1.1,
        highshelf 12000 1 (Some 0.7)]
   \<and> list_all gainInRange (eq (buildDSPForPreset bigcappo))
   \<and> map ratio (bandList (bands (multiband (buildDSPForPreset bigcappo))))
        = [3.15, 2.44, 1.66, 1.5, 1.44]
   \<and> list_all ratioInRange (bandList (bands (multiband (buildDSPForPreset bigcappo))))"
proof -
  have h: "\<not> hasEqOverride bigcappo"
    by (simp add: hasEqOverride_def noExact_def)
  have e: "eq (buildDSPForPreset bigcappo) =
       [hpf 30 (Some 2) (Some 0.707), lowshelf 120 3 (Some 1), bell 1500 4 1.1,
        highshelf 12000 1 (Some 0.7)]"
    by (simp add: eq_buildDSP h mkSettings_def clamp_def)
  have r: "map ratio (bandList (bands (multiband (buildDSPForPreset bigcappo))))
        = [3.15, 2.44, 1.66, 1.5, 1.44]"
    by (simp add: multiband_buildDSP noExact_def mkSettings_def slider_ratios lowRatio_def
        lowMidRatio_def midRatio_def highMidRatio_def highRatio_def clamp_def)
  from buildDSPForPreset_invariants [of bigcappo] h e r show ?thesis
    unfolding list_all_iff by blast
qed

subsection \<open>The trim\<close>

lemma clampNumber_spec:
  "\<not> gt lo hi \<Longrightarrow> lo \<noteq> NaN \<Longrightarrow> hi \<noteq> NaN \<Longrightarrow> clampNumber v lo hi = spec_clampToRange lo hi v"
  by (cases v; cases lo; cases hi)
     (auto simp: clampNumber_def spec_clampToRange_def Math_max_def Math_min_def lt_def)

text \<open>
  Claim C1. For every preset key and every pair of measured values, the trim that
  \<open>processAudioPremium\<close> computes is the result of the three steps in their order:
  the loudness trim \<open>target - measured\<close>, then the peak-safety override
  (\<open>min\<close> with \<open>ceiling - peak\<close> when the predicted peak is above the ceiling), then
  the clamp to the range of \<open>trimClampDb\<close>. The measured values range over all
  numbers, the infinities and NaN included.
\<close>

theorem trimDb_three_steps:
  "processAudioPremium_trimDb (output (buildDSPForPreset key)) integrated tpPre
     = spec_trimDb (output (buildDSPForPreset key)) integrated tpPre"
  by (simp add: processAudioPremium_trimDb_def spec_trimDb_def spec_peakSafety_def
      spec_loudnessTrim_def Let_def clampNumber_spec trimClamp_buildDSP)

text \<open>
  Claim C2, as stated, fails. With a measured loudness of -14 LUFS and a measured peak of
  +30 dBFS the peak-safety condition triggers and lowers the trim to -30.5 dB, but the
  final clamp raises it to \<open>trimClampDb.min\<close> = -24 dB: the predicted peak is
  +6 dBFS, above the ceiling of -0.5 dBFS.
\<close>

theorem trimDb_peak_above_ceiling_counterexample:
  "peakSafetyTriggered (output (buildDSPForPreset deharsh)) (Fin (-14)) (Fin 30)
   \<and> processAudioPremium_trimDb (output (buildDSPForPreset deharsh)) (Fin (-14)) (Fin 30)
       = Fin (-24)
   \<and> \<not> le (add (Fin 30)
             (processAudioPremium_trimDb (output (buildDSPForPreset deharsh)) (Fin (-14)) (Fin 30)))
           (Fin (ceilingDbFS (output (buildDSPForPreset deharsh))))"
  by (simp add: output_buildDSP UNIVERSAL_OUTPUT_def peakSafetyTriggered_def
      processAudioPremium_trimDb_def sub_def clampNumber_def Math_min_def Math_max_def le_def)

lemma addRounded_exact: "addRounded Fin a b = add a b"
  by (cases a; cases b) simp_all

lemma subRounded_exact: "subRounded Fin a b = sub a b"
  by (simp add: subRounded_def sub_def addRounded_exact)

lemma trimDb_rounded_exact:
  "processAudioPremium_trimDb_rounded Fin out integrated tpPre
     = processAudioPremium_trimDb out integrated tpPre"
  "peakSafetyTriggered_rounded Fin out integrated tpPre
     = peakSafetyTriggered out integrated tpPre"
  unfolding processAudioPremium_trimDb_rounded_def processAudioPremium_trimDb_def
    peakSafetyTriggered_rounded_def peakSafetyTriggered_def subRounded_exact addRounded_exact
  by (rule refl)+

lemma addRounded_NaN: "addRounded rnd a NaN = NaN"
  by (cases a) simp_all

lemma le_Math_min: "t \<noteq> NaN \<Longrightarrow> d \<noteq> NaN \<Longrightarrow> le (Math_min t d) d"
  by (cases t; cases d) (auto simp: Math_min_def le_def)

lemma le_clampNumber:
  assumes "le v d" and "le (Fin lo) d"
  shows "le (clampNumber v (Fin lo) (Fin hi)) d"
  using assms
  by (cases v; cases d) (auto simp: clampNumber_def Math_min_def Math_max_def le_def)

text \<open>
  Claim C2, amended. For every output spec, every pair of measured values and every
  rounding of the arithmetic: when the peak-safety condition triggered and
  \<open>trimClampDb.min\<close> is at most the difference \<open>ceilingDbFS - measuredTruePeak\<close> that
  the code computes (for every preset: a peak of at most 23.5 dBFS, up to rounding), the
  final trim is at most that computed difference. The sum \<open>measuredTruePeak + trimDb\<close>,
  computed anew, is rounded once more and is not compared with the ceiling here.
\<close>

theorem trimDb_within_headroom:
  assumes "peakSafetyTriggered_rounded rnd out integrated tpPre"
    and "le (Fin (min_db (trimClampDb out))) (subRounded rnd (Fin (ceilingDbFS out)) tpPre)"
  shows "le (processAudioPremium_trimDb_rounded rnd out integrated tpPre)
            (subRounded rnd (Fin (ceilingDbFS out)) tpPre)"
proof -
  let ?d = "subRounded rnd (Fin (ceilingDbFS out)) tpPre"
  let ?t = "subRounded rnd (Fin (targetIntegratedLUFS out)) integrated"
  have d: "?d \<noteq> NaN"
    using assms(2) by (auto simp: le_def)
  have t: "?t \<noteq> NaN"
  proof
    assume "?t = NaN"
    then have "addRounded rnd tpPre ?t = NaN"
      by (simp only: addRounded_NaN)
    with assms(1) show False
      by (simp add: peakSafetyTriggered_rounded_def)
  qed
  have "le (Math_min ?t ?d) ?d"
    using t d by (rule le_Math_min)
  then have "le (clampNumber (Math_min ?t ?d) (Fin (min_db (trimClampDb out)))
                   (Fin (max_db (trimClampDb out)))) ?d"
    using assms(2) by (rule le_clampNumber)
  with assms(1) show ?thesis
    by (simp add: processAudioPremium_trimDb_rounded_def peakSafetyTriggered_rounded_def Let_def)
qed

text \<open>
  A measured loudness of -20 LUFS with a peak of -3 dBFS, in exact arithmetic (every value
  that occurs is a binary64 value, so no operation rounds): the loudness trim of 6 dB is
  cut to the difference 2.5 dB.
\<close>

theorem trimDb_within_headroom_witness:
  "peakSafetyTriggered_rounded Fin UNIVERSAL_OUTPUT (Fin (-20)) (Fin (-3))
   \<and> subRounded Fin (Fin (ceilingDbFS UNIVERSAL_OUTPUT)) (Fin (-3)) = Fin 2.5
   \<and> le (Fin (min_db (trimClampDb UNIVERSAL_OUTPUT))) (Fin 2.5)
   \<and> processAudioPremium_trimDb_rounded Fin UNIVERSAL_OUTPUT (Fin (-20)) (Fin (-3)) = Fin 2.5
   \<and> le (processAudioPremium_trimDb_rounded Fin UNIVERSAL_OUTPUT (Fin (-20)) (Fin (-3)))
        (Fin 2.5)"
proof -
  have t: "peakSafetyTriggered_rounded Fin UNIVERSAL_OUTPUT (Fin (-20)) (Fin (-3))"
    by (simp add: peakSafetyTriggered_rounded_def UNIVERSAL_OUTPUT_def subRounded_def)
  have d: "subRounded Fin (Fin (ceilingDbFS UNIVERSAL_OUTPUT)) (Fin (-3)) = Fin 2.5"
    by (simp add: UNIVERSAL_OUTPUT_def subRounded_def)
  have p: "le (Fin (min_db (trimClampDb UNIVERSAL_OUTPUT)))
              (subRounded Fin (Fin (ceilingDbFS UNIVERSAL_OUTPUT)) (Fin (-3)))"
    by (simp add: d) (simp add: le_def UNIVERSAL_OUTPUT_def)
  have v: "processAudioPremium_trimDb_rounded Fin UNIVERSAL_OUTPUT (Fin (-20)) (Fin (-3)) = Fin 2.5"
    by (simp add: processAudioPremium_trimDb_rounded_def UNIVERSAL_OUTPUT_def subRounded_def
        clampNumber_def Math_min_def Math_max_def)
  from trimDb_within_headroom [OF t p] t p v d show ?thesis
    by simp
qed

lemma peak_bound_buildDSP:
  "ceilingDbFS (output (buildDSPForPreset key)) - min_db (trimClampDb (output (buildDSPForPreset key)))
     = 23.5"
  by (simp add: ceiling_buildDSP trimClamp_buildDSP)

section \<open>Verification: audio graph\<close>

subsection \<open>Bus compressor\<close>

lemma upstream_self: "n \<in> set (upstream n)"
  by (cases n) simp_all

lemma busComp_maximpact:
  "busComp (buildDSPForPreset maximpact) = Some
     \<lparr> ratio = 4.0, thresholdDb = -18, kneeDb = 6, attackSec = 0.03, releaseSec = 0.10,
       enabled = True, sidechainHpfHz = Some 100 \<rparr>"
  by (simp add: buildDSPForPreset_def noExact_def)

text \<open>
  Claim C5, as stated, fails. For the bus compressor of the preset \<open>maximpact\<close>
  (enabled, side-chain high-pass at 100 Hz) \<open>applyBusComp\<close> returns the compressor, and
  the only node connected to the compressor is the high-pass filter: the signal that the
  compressor processes and passes on is the filtered one, and the filter is upstream of
  the output.
\<close>

theorem applyBusComp_filters_output_counterexample:
  "applyBusComp BufferSource (busComp (buildDSPForPreset maximpact))
     = DynamicsCompressorNode (-18) 6 4 0.03 0.1
         [BiquadFilterNode Highpass 100 0.707 0 [BufferSource]]
   \<and> inputsOf (applyBusComp BufferSource (busComp (buildDSPForPreset maximpact)))
       = [BiquadFilterNode Highpass 100 0.707 0 [BufferSource]]
   \<and> BufferSource
       \<notin> set (inputsOf (applyBusComp BufferSource (busComp (buildDSPForPreset maximpact))))
   \<and> BiquadFilterNode Highpass 100 0.707 0 [BufferSource]
       \<in> set (upstream (applyBusComp BufferSource (busComp (buildDSPForPreset maximpact))))"
  by (simp add: busComp_maximpact applyBusComp_def clamp_def)

text \<open>
  Claim C5, amended. For every enabled bus compressor spec with a side-chain high-pass
  frequency set (and not 0), \<open>applyBusComp\<close> puts the high-pass filter in series before
  the compressor: the stage is the compressor fed by the high-pass filter alone, which is
  fed by the input. The high-pass shapes the whole signal that the compressor receives,
  the audible path included; the graph has no separate detector path.
\<close>

theorem applyBusComp_sidechain_in_series:
  assumes "enabled sp" and "sidechainHpfHz sp = Some f" and "f \<noteq> 0"
  shows "applyBusComp input (Some sp)
           = DynamicsCompressorNode (thresholdDb sp) (kneeDb sp) (clamp (ratio sp) 1 20)
               (clamp (attackSec sp) 0.001 0.25) (clamp (releaseSec sp) 0.03 0.5)
               [BiquadFilterNode Highpass f 0.707 0 [input]]
         \<and> inputsOf (applyBusComp input (Some sp)) = [BiquadFilterNode Highpass f 0.707 0 [input]]"
  using assms by (simp add: applyBusComp_def)

text \<open>The bus compressor of \<open>maximpact\<close>, fed by a gain node.\<close>

theorem applyBusComp_sidechain_in_series_witness:
  "busComp (buildDSPForPreset maximpact) = Some
     \<lparr> ratio = 4.0, thresholdDb = -18, kneeDb = 6, attackSec = 0.03, releaseSec = 0.10,
       enabled = True, sidechainHpfHz = Some 100 \<rparr>
   \<and> applyBusComp (GainNode 1 [BufferSource]) (busComp (buildDSPForPreset maximpact))
       = DynamicsCompressorNode (-18) 6 4 0.03 0.1
           [BiquadFilterNode Highpass 100 0.707 0 [GainNode 1 [BufferSource]]]"
  using applyBusComp_sidechain_in_series
    [of "\<lparr> ratio = 4.0, thresholdDb = -18, kneeDb = 6, attackSec = 0.03, releaseSec = 0.10,
            enabled = True, sidechainHpfHz = Some 100 \<rparr>" 100 "GainNode 1 [BufferSource]"]
  by (simp add: busComp_maximpact clamp_def)

subsection \<open>Render graph\<close>

lemma upstream_applyBusComp:
  "n \<in> set (upstream input) \<Longrightarrow> n \<in> set (upstream (applyBusComp input spec))"
  by (cases "whenTruthy (sidechainHpfHz (the spec))")
     (auto simp: applyBusComp_def Let_def split: option.splits)

lemma upstream_applyMultiband:
  "n \<in> set (upstream input) \<Longrightarrow> n \<in> set (upstream (applyMultiband input spec))"
  by (cases "xoversHz spec"; cases "bands spec")
     (simp add: applyMultiband_def bandCompressor_def makeLP_def makeHP_def)

lemma upstream_applyStereoShaping:
  "n \<in> set (upstream input) \<Longrightarrow> n \<in> set (upstream (applyStereoShaping input st k))"
  by (simp add: applyStereoShaping_def Let_def)

lemma upstream_applyLimiterAndCeiling:
  "n \<in> set (upstream input) \<Longrightarrow> n \<in> set (upstream (applyLimiterAndCeiling input out t))"
  by (simp add: applyLimiterAndCeiling_def Let_def)

text \<open>
  Claim C10. For every spec, and so for every preset, when \<open>special\<close> is
  \<open>bigcappo\<close> or the caller's \<open>useAutoTune\<close> flag is set, \<open>renderPresetGraph\<close>
  inserts the warmth node (a peaking filter at 400 Hz, Q 1.2, gain -2 dB) between the EQ
  chain and the bus compressor, in the analysis pass (\<open>preOutput\<close>) and in the final
  pass alike: the graph is the rest of the chain applied to the warmth node, and the warmth
  node is upstream of the rendered output. \<open>processAudioPremium\<close> hands the same flag to
  both of its renders.
\<close>

theorem renderPresetGraph_warmth:
  assumes "special dsp = Some ''bigcappo'' \<or> useAutoTune"
  shows "renderPresetGraph numChannels dsp useAutoTune mode trimDb =
           (let eqOut = applyFilterChain (BiquadFilterNode Highpass 30 0.707 0 [BufferSource]) (eq dsp);
                tuned = BiquadFilterNode Peaking 400 1.2 (-2) [eqOut];
                stereoOut = applyStereoShaping
                              (applyMultiband (applyBusComp tuned (busComp dsp)) (multiband dsp))
                              (stereo dsp) numChannels
            in case mode of
                 preOutput \<Rightarrow> stereoOut
               | final \<Rightarrow> applyLimiterAndCeiling stereoOut (output dsp) trimDb)
         \<and> BiquadFilterNode Peaking 400 1.2 (-2)
             [applyFilterChain (BiquadFilterNode Highpass 30 0.707 0 [BufferSource]) (eq dsp)]
             \<in> set (upstream (renderPresetGraph numChannels dsp useAutoTune mode trimDb))"
proof -
  let ?w = "BiquadFilterNode Peaking 400 1.2 (-2)
             [applyFilterChain (BiquadFilterNode Highpass 30 0.707 0 [BufferSource]) (eq dsp)]"
  let ?s = "applyStereoShaping (applyMultiband (applyBusComp ?w (busComp dsp)) (multiband dsp))
              (stereo dsp) numChannels"
  have s: "?w \<in> set (upstream ?s)"
    by (intro upstream_applyStereoShaping upstream_applyMultiband upstream_applyBusComp
        upstream_self)
  then have "?w \<in> set (upstream (applyLimiterAndCeiling ?s (output dsp) trimDb))"
    by (rule upstream_applyLimiterAndCeiling)
  with s assms show ?thesis
    by (cases mode) (auto simp: renderPresetGraph_def warmthTrim_def Let_def)
qed

lemma eqOut_deharsh:
  "applyFilterChain (BiquadFilterNode Highpass 30 0.707 0 [BufferSource])
     (eq (buildDSPForPreset deharsh))
   = BiquadFilterNode Highshelf 12000 0.7 (-3)
       [BiquadFilterNode Peaking 1500 1.1 (-1)
         [BiquadFilterNode Lowshelf 120 1 0
           [BiquadFilterNode Highpass 30 0.707 0
             [BiquadFilterNode Highpass 30 0.707 0
               [BiquadFilterNode Highpass 30 0.707 0 [BufferSource]]]]]]"
  by (simp add: buildDSPForPreset_def mkSettings_def clamp_def)

text \<open>
  The preset \<open>deharsh\<close> carries no \<open>special\<close> tag; with the flag set, both passes of
  a stereo render contain the warmth node, fed by the EQ chain of the preset.
\<close>

theorem renderPresetGraph_warmth_witness:
  "special (buildDSPForPreset deharsh) = None
   \<and> BiquadFilterNode Peaking 400 1.2 (-2)
       [BiquadFilterNode Highshelf 12000 0.7 (-3)
         [BiquadFilterNode Peaking 1500 1.1 (-1)
           [BiquadFilterNode Lowshelf 120 1 0
             [BiquadFilterNode Highpass 30 0.707 0
               [BiquadFilterNode Highpass 30 0.707 0
                 [BiquadFilterNode Highpass 30 0.707 0 [BufferSource]]]]]]]
       \<in> set (upstream (renderPresetGraph 2 (buildDSPForPreset deharsh) True preOutput 0))
   \<and> BiquadFilterNode Peaking 400 1.2 (-2)
       [BiquadFilterNode Highshelf 12000 0.7 (-3)
         [BiquadFilterNode Peaking 1500 1.1 (-1)
           [BiquadFilterNode Lowshelf 120 1 0
             [BiquadFilterNode Highpass 30 0.707 0
               [BiquadFilterNode Highpass 30 0.707 0
                 [BiquadFilterNode Highpass 30 0.707 0 [BufferSource]]]]]]]
       \<in> set (upstream (renderPresetGraph 2 (buildDSPForPreset deharsh) True final (5 / 2)))"
proof -
  have n: "special (buildDSPForPreset deharsh) = None"
    by (simp add: buildDSPForPreset_def mkSettings_def)
  have h: "special (buildDSPForPreset deharsh) = Some ''bigcappo'' \<or> True"
    by simp
  from renderPresetGraph_warmth [OF h, of 2 preOutput 0]
    renderPresetGraph_warmth [OF h, of 2 final "5 / 2"] n
  show ?thesis
    unfolding eqOut_deharsh by blast
qed

text \<open>
  Without the tag and without the flag the warmth node is absent: the bus compressor is
  fed by the EQ chain.
\<close>

lemma renderPresetGraph_no_warmth:
  assumes "special dsp \<noteq> Some ''bigcappo''" and "\<not> useAutoTune"
  shows "renderPresetGraph numChannels dsp useAutoTune preOutput trimDb =
           applyStereoShaping
             (applyMultiband
               (applyBusComp
                 (applyFilterChain (BiquadFilterNode Highpass 30 0.707 0 [BufferSource]) (eq dsp))
                 (busComp dsp))
               (multiband dsp))
             (stereo dsp) numChannels"
  using assms by (simp add: renderPresetGraph_def Let_def)

text \<open>The trim of the orchestrator is a finite number whenever the measured loudness is not NaN.\<close>

lemma processAudioPremium_trimDb_finite:
  assumes "integrated \<noteq> NaN"
  shows "\<exists>t. processAudioPremium_trimDb (output (buildDSPForPreset key)) integrated (Fin tpPre) = Fin t"
  using assms
  by (cases integrated)
     (auto simp: processAudioPremium_trimDb_def trimClamp_buildDSP sub_def clampNumber_def
        Math_min_def Math_max_def Let_def)


section \<open>Verification: true peak\<close>

lemma interpolation_bounded:
  fixes a b t :: real
  assumes "0 \<le> t" and "t \<le> 1"
  shows "\<bar>a + (b - a) * t\<bar> \<le> max (abs a) (abs b)"
proof -
  have "a + (b - a) * t = (1 - t) * a + t * b"
    by (simp add: algebra_simps)
  also have "\<bar>\<dots>\<bar> \<le> \<bar>(1 - t) * a\<bar> + \<bar>t * b\<bar>"
    by (rule abs_triangle_ineq)
  also have "\<dots> = (1 - t) * \<bar>a\<bar> + t * \<bar>b\<bar>"
    using assms by (simp add: abs_mult)
  also have "\<dots> \<le> (1 - t) * max (abs a) (abs b) + t * max (abs a) (abs b)"
    using assms by (intro add_mono mult_left_mono) simp_all
  also have "\<dots> = max (abs a) (abs b)"
    by (simp add: algebra_simps)
  finally show ?thesis .
qed

lemma fold_max_absorbed:
  fixes peak :: real
  assumes "\<forall>k \<in> set ks. f k \<le> peak"
  shows "fold (\<lambda>k p. max p (f k)) ks peak = peak"
  using assms by (induction ks) (simp_all add: max_absorb1)

lemma oversampleLoop_keeps_peak:
  assumes "1 \<le> oversample" and "max (abs a) (abs b) \<le> peak"
  shows "oversampleLoop oversample a b peak = peak"
proof -
  have "\<bar>a + (b - a) * (real k / oversample)\<bar> \<le> peak"
    if "k \<in> set [1 ..< nat \<lceil>oversample\<rceil>]" for k
  proof -
    from that have "int k < \<lceil>oversample\<rceil>" by auto
    then have "real k < oversample"
      by (metis less_ceiling_iff of_int_of_nat_eq)
    with assms(1) have "0 \<le> real k / oversample" "real k / oversample \<le> 1"
      by simp_all
    from interpolation_bounded [OF this, of a b] assms(2) show ?thesis
      by linarith
  qed
  then show ?thesis
    unfolding oversampleLoop_def Let_def
    by (intro fold_max_absorbed) blast
qed

lemma channelPeak_step:
  assumes "1 \<le> oversample"
  shows "channelPeak oversample data len peak =
           fold (\<lambda>i p. max (max p \<bar>data i\<bar>) \<bar>data (i + 1)\<bar>) [0 ..< len - 1] peak"
  unfolding channelPeak_def Let_def
  by (rule arg_cong [where f = "\<lambda>g. fold g _ _"])
     (auto simp: fun_eq_iff intro!: oversampleLoop_keeps_peak [OF assms])

lemma pairwise_max_fold:
  fixes d :: "nat \<Rightarrow> real"
  shows "fold (\<lambda>i p. max (max p \<bar>d i\<bar>) \<bar>d (i + 1)\<bar>) [0 ..< Suc n] peak
           = max peak (Max ((\<lambda>i. \<bar>d i\<bar>) ` {.. Suc n}))"
proof (induction n)
  case 0
  have "{.. Suc 0} = {0, Suc 0}" by auto
  then show ?case by (simp add: max.assoc)
next
  case (Suc n)
  have set: "{.. Suc (Suc n)} = insert (Suc (Suc n)) {.. Suc n}" by auto
  have le: "\<bar>d (Suc n)\<bar> \<le> Max ((\<lambda>i. \<bar>d i\<bar>) ` {.. Suc n})"
    by (rule Max_ge) auto
  have "fold (\<lambda>i p. max (max p \<bar>d i\<bar>) \<bar>d (i + 1)\<bar>) [0 ..< Suc (Suc n)] peak
          = max (max (max peak (Max ((\<lambda>i. \<bar>d i\<bar>) ` {.. Suc n}))) \<bar>d (Suc n)\<bar>) \<bar>d (Suc (Suc n))\<bar>"
    using Suc.IH by simp
  also have "\<dots> = max peak (max (Max ((\<lambda>i. \<bar>d i\<bar>) ` {.. Suc n})) \<bar>d (Suc (Suc n))\<bar>)"
    using le by linarith
  also have "max (Max ((\<lambda>i. \<bar>d i\<bar>) ` {.. Suc n})) \<bar>d (Suc (Suc n))\<bar>
               = Max ((\<lambda>i. \<bar>d i\<bar>) ` {.. Suc (Suc n)})"
    unfolding set by (simp add: max.commute)
  finally show ?case .
qed

lemma channelPeak_eq:
  assumes "1 \<le> oversample" and "2 \<le> len"
  shows "channelPeak oversample data len peak
           = max peak (Max ((\<lambda>i. \<bar>data i\<bar>) ` {..< len}))"
proof -
  from assms(2) obtain n where n: "len = Suc (Suc n)"
    by (metis One_nat_def Suc_1 Suc_le_D Suc_le_mono)
  have "{..< len} = {.. Suc n}" using n by auto
  then show ?thesis
    using pairwise_max_fold [of data n peak] by (simp add: channelPeak_step [OF assms(1)] n)
qed

lemma channels_max_fold:
  fixes m :: "nat \<Rightarrow> real"
  shows "fold (\<lambda>c p. max p (m c)) [0 ..< Suc n] peak = max peak (Max (m ` {.. n}))"
proof (induction n)
  case 0
  show ?case by simp
next
  case (Suc n)
  have set: "{.. Suc n} = insert (Suc n) {.. n}" by auto
  have "fold (\<lambda>c p. max p (m c)) [0 ..< Suc (Suc n)] peak
          = max (max peak (Max (m ` {.. n}))) (m (Suc n))"
    using Suc.IH by simp
  also have "\<dots> = max peak (max (Max (m ` {.. n})) (m (Suc n)))"
    by (simp add: max.assoc)
  also have "max (Max (m ` {.. n})) (m (Suc n)) = Max (m ` {.. Suc n})"
    unfolding set by (simp add: max.commute)
  finally show ?case .
qed

lemma samplePeak_nonneg:
  assumes "0 < numberOfChannels b" and "0 < bufferLength b"
  shows "0 \<le> samplePeak b"
proof -
  let ?m = "\<lambda>c. Max ((\<lambda>i. \<bar>getChannelData b c i\<bar>) ` {..< bufferLength b})"
  have "0 \<le> \<bar>getChannelData b 0 0\<bar>" by simp
  also have "\<dots> \<le> ?m 0" using assms(2) by (intro Max_ge) auto
  also have "\<dots> \<le> Max (?m ` {..< numberOfChannels b})"
    using assms(1) by (intro Max_ge) auto
  finally show ?thesis by (simp add: samplePeak_def)
qed

text \<open>
  On real samples, the estimate is the sample peak: a value interpolated linearly between
  two samples is never larger in absolute value than the larger of the two
  (\<open>interpolation_bounded\<close>), so the loop over \<open>k\<close> leaves the peak as it is
  (\<open>oversampleLoop_keeps_peak\<close>).
\<close>

lemma estimateTruePeakDbFS_real_samples:
  assumes "0 < numberOfChannels b" and "2 \<le> bufferLength b" and "1 \<le> oversample"
  shows "estimateTruePeakDbFS b oversample = 20 * log 10 (max (1 / 10 ^ 12) (samplePeak b))"
proof -
  let ?m = "\<lambda>c. Max ((\<lambda>i. \<bar>getChannelData b c i\<bar>) ` {..< bufferLength b})"
  from assms(1) obtain n where n: "numberOfChannels b = Suc n"
    by (metis Suc_pred)
  have "fold (\<lambda>c peak. channelPeak oversample (getChannelData b c) (bufferLength b) peak)
          [0 ..< numberOfChannels b] 0
        = fold (\<lambda>c p. max p (?m c)) [0 ..< numberOfChannels b] 0"
    by (rule arg_cong [where f = "\<lambda>g. fold g _ _"])
       (simp add: fun_eq_iff channelPeak_eq [OF assms(3) assms(2)])
  also have "\<dots> = max 0 (Max (?m ` {.. n}))"
    unfolding n by (rule channels_max_fold)
  also have "{.. n} = {..< numberOfChannels b}"
    using n by auto
  also have "max 0 (Max (?m ` {..< numberOfChannels b})) = max 0 (samplePeak b)"
    by (simp add: samplePeak_def)
  also have "\<dots> = samplePeak b"
    using samplePeak_nonneg [of b] assms by simp
  finally show ?thesis
    by (simp add: estimateTruePeakDbFS_def Let_def linToDb_def)
qed

subsection \<open>Samples that may be infinite or NaN\<close>

lemma fold_Fin:
  assumes "\<And>x p. x \<in> set xs \<Longrightarrow> f x (Fin p) = Fin (g x p)"
  shows "fold f xs (Fin p) = Fin (fold g xs p)"
  using assms by (induction xs arbitrary: p) simp_all

lemma Math_max_Fin: "Math_max (Fin a) (Fin b) = Fin (max a b)"
  by (simp add: Math_max_def max_def)

lemma oversampleLoop_number_Fin:
  "oversampleLoop_number oversample (Fin a) (Fin b) (Fin p) = Fin (oversampleLoop oversample a b p)"
  unfolding oversampleLoop_number_def oversampleLoop_def
  by (rule fold_Fin) (simp add: Let_def sub_def Math_max_Fin)

lemma channelPeak_number_Fin:
  assumes "\<forall>i < len. \<exists>x. data i = Fin x"
  shows "channelPeak_number oversample data len (Fin p)
           = Fin (channelPeak oversample (\<lambda>i. realOf (data i)) len p)"
  unfolding channelPeak_number_def channelPeak_def
proof (rule fold_Fin)
  fix i q
  assume "i \<in> set [0 ..< len - 1]"
  then have "i < len" "i + 1 < len" by auto
  with assms obtain x y where "data i = Fin x" "data (i + 1) = Fin y"
    by blast
  then show "(let a = data i; b = data (i + 1);
                  peak = Math_max (Math_max (Fin q) (Math_abs a)) (Math_abs b)
              in oversampleLoop_number oversample a b peak)
             = Fin (let a = realOf (data i); b = realOf (data (i + 1));
                        peak = max (max q \<bar>a\<bar>) \<bar>b\<bar>
                    in oversampleLoop oversample a b peak)"
    by (simp add: Let_def Math_max_Fin oversampleLoop_number_Fin)
qed

lemma linToDb_number_Fin: "linToDb_number (Fin p) = Fin (linToDb p)"
proof -
  have "0 < max (1 / 10 ^ 12) p"
    by (simp add: less_max_iff_disj)
  then show ?thesis
    unfolding linToDb_number_def linToDb_def Math_max_Fin by simp
qed

text \<open>On finite samples the two models of \<open>estimateTruePeakDbFS\<close> agree.\<close>

lemma estimateTruePeakDbFS_number_finite:
  assumes "finiteSamples b"
  shows "estimateTruePeakDbFS_number b oversample
           = Fin (estimateTruePeakDbFS (finitePart b) oversample)"
proof -
  have "fold (\<lambda>c peak. channelPeak_number oversample (getChannelData b c) (bufferLength b) peak)
          [0 ..< numberOfChannels b] (Fin 0)
        = Fin (fold (\<lambda>c peak. channelPeak oversample (\<lambda>i. realOf (getChannelData b c i))
                                 (bufferLength b) peak)
                 [0 ..< numberOfChannels b] 0)"
  proof (rule fold_Fin)
    fix c p
    assume "c \<in> set [0 ..< numberOfChannels b]"
    then have "\<forall>i < bufferLength b. \<exists>x. getChannelData b c i = Fin x"
      using assms by (simp add: finiteSamples_def)
    then show "channelPeak_number oversample (getChannelData b c) (bufferLength b) (Fin p)
                 = Fin (channelPeak oversample (\<lambda>i. realOf (getChannelData b c i))
                          (bufferLength b) p)"
      by (rule channelPeak_number_Fin)
  qed
  then show ?thesis
    by (simp add: estimateTruePeakDbFS_number_def estimateTruePeakDbFS_def finitePart_def
        Let_def linToDb_number_Fin)
qed

lemma oversampleLoop_number_infinite:
  "oversampleLoop_number 4 PosInfinity (Fin 0) PosInfinity = NaN"
proof -
  have "[1 ..< nat \<lceil>4::real\<rceil>] = [1, 2, 3]"
    by (simp add: upt_rec)
  then show ?thesis
    unfolding oversampleLoop_number_def by (simp add: Let_def sub_def Math_max_def)
qed

lemma oversampleLoop_number_none: "oversampleLoop_number 1 a b peak = peak"
  by (simp add: oversampleLoop_number_def)

lemma first_peak_infinite:
  "Math_max (Math_max (Fin 0) (Math_abs PosInfinity)) (Math_abs (Fin 0)) = PosInfinity"
  by (simp add: Math_max_def)

text \<open>
  Claim C9, as stated, fails on a buffer with an infinite sample. For one channel with the
  samples \<open>Infinity\<close> and 0 the first interpolated value is
  \<open>Infinity + (0 - Infinity) * 0.25\<close>, which is NaN: with the oversample factor 4 the
  result is NaN, with the factor 1 (no interpolation) it is \<open>+Infinity\<close>. The result
  depends on the factor, and with the factor 4 it is not the level of the sample peak.
\<close>

theorem estimateTruePeakDbFS_infinite_sample_counterexample:
  "estimateTruePeakDbFS_number infiniteFirstSample 4 = NaN
   \<and> estimateTruePeakDbFS_number infiniteFirstSample 1 = PosInfinity
   \<and> estimateTruePeakDbFS_number infiniteFirstSample 4
       \<noteq> estimateTruePeakDbFS_number infiniteFirstSample 1"
proof -
  have four: "estimateTruePeakDbFS_number infiniteFirstSample 4 = NaN"
    by (simp add: estimateTruePeakDbFS_number_def channelPeak_number_def
        infiniteFirstSample_def Let_def first_peak_infinite oversampleLoop_number_infinite
        linToDb_number_def Math_max_def)
  have one: "estimateTruePeakDbFS_number infiniteFirstSample 1 = PosInfinity"
    by (simp add: estimateTruePeakDbFS_number_def channelPeak_number_def
        infiniteFirstSample_def Let_def first_peak_infinite oversampleLoop_number_none
        linToDb_number_def Math_max_def)
  from four one show ?thesis by simp
qed

text \<open>
  Claim C9, amended. For every buffer with at least one channel and at least 2 samples per
  channel, all of them finite, and every oversample factor of at least 1,
  \<open>estimateTruePeakDbFS\<close> returns \<open>20 * log10 (max 1e-12 m)\<close>, where \<open>m\<close> is the
  largest absolute value among the raw samples of all channels: the interpolation never
  raises the peak, the result does not depend on the oversample factor and is the level of
  the plain sample peak.
\<close>

theorem estimateTruePeakDbFS_is_sample_peak:
  assumes "finiteSamples b"
    and "0 < numberOfChannels b" and "2 \<le> bufferLength b" and "1 \<le> oversample"
  shows "estimateTruePeakDbFS_number b oversample
           = Fin (20 * log 10 (max (1 / 10 ^ 12) (samplePeak (finitePart b))))"
proof -
  have "0 < numberOfChannels (finitePart b)" "2 \<le> bufferLength (finitePart b)"
    using assms(2,3) by (simp_all add: finitePart_def)
  from estimateTruePeakDbFS_real_samples [OF this assms(4)]
  show ?thesis
    by (simp add: estimateTruePeakDbFS_number_finite [OF assms(1)])
qed

lemma samplePeak_twoFiniteSamples: "samplePeak (finitePart twoFiniteSamples) = 1"
proof -
  have "{..< 2::nat} = {0, 1}" "{..< 1::nat} = {0}" by auto
  then show ?thesis by (simp add: samplePeak_def finitePart_def twoFiniteSamples_def)
qed

text \<open>
  One channel with the samples 0.5 and -1, oversampled 4 times: the peak is 1, that is
  0 dBFS.
\<close>

theorem estimateTruePeakDbFS_is_sample_peak_witness:
  "finiteSamples twoFiniteSamples
   \<and> 0 < numberOfChannels twoFiniteSamples \<and> 2 \<le> bufferLength twoFiniteSamples
   \<and> samplePeak (finitePart twoFiniteSamples) = 1
   \<and> estimateTruePeakDbFS_number twoFiniteSamples 4 = Fin 0"
proof -
  have "getChannelData twoFiniteSamples c i = Fin (if i = 0 then 1 / 2 else - 1)" for c i
    by (simp add: twoFiniteSamples_def)
  then have f: "finiteSamples twoFiniteSamples"
    unfolding finiteSamples_def by blast
  have h: "0 < numberOfChannels twoFiniteSamples" "2 \<le> bufferLength twoFiniteSamples"
    by (simp_all add: twoFiniteSamples_def)
  have o: "1 \<le> (4::real)" by simp
  from estimateTruePeakDbFS_is_sample_peak [OF f h o] f h show ?thesis
    by (simp add: samplePeak_twoFiniteSamples)
qed

section \<open>Verification: integrated loudness\<close>

lemma log10_floor: "log 10 (1 / 10 ^ 12) = -12"
proof -
  have "(1::real) / 10 ^ 12 = 10 powr (- 12)"
    by (simp add: powr_minus_divide)
  then show ?thesis
    by (simp only: log_powr_cancel)
qed

lemma fold_add_zero:
  fixes s0 :: real
  assumes "\<forall>i \<in> set xs. f i = 0"
  shows "fold (\<lambda>i s. s + f i) xs s0 = s0"
  using assms by (induction xs) simp_all

lemma blockLUFS_silent:
  assumes "allZero b" and "start + blockLen b \<le> bufferLength b"
  shows "blockLUFS b start = -120.691"
proof -
  have inner: "fold (\<lambda>i s. let x = getChannelData b c i in s + x * x)
                 [start ..< start + blockLen b] 0 = 0"
    if "c < numberOfChannels b" for c
    unfolding Let_def using assms that
    by (intro fold_add_zero) (auto simp: allZero_def)
  have "fold (\<lambda>c sum.
                let data = getChannelData b c;
                    s = fold (\<lambda>i s. let x = data i in s + x * x)
                             [start ..< start + blockLen b] 0
                in sum + s / real (blockLen b))
             [0 ..< numberOfChannels b] 0 = 0"
    unfolding Let_def
    by (intro fold_add_zero) (use inner in \<open>simp add: Let_def\<close>)
  then show ?thesis
    using log10_floor by (simp add: blockLUFS_def Let_def)
qed

lemma blockLoop_silent:
  "allZero b \<Longrightarrow> \<forall>l \<in> set (blockLoop b start). l = -120.691"
proof (induction b start rule: blockLoop.induct)
  case (1 buffer start)
  show ?case
  proof (cases "start + blockLen buffer \<le> bufferLength buffer")
    case True
    have "blockLoop buffer start
            = blockLUFS buffer start # blockLoop buffer (start + step buffer)"
      using True by (subst blockLoop.simps) simp
    then show ?thesis
      using "1.IH" [OF True "1.prems"] blockLUFS_silent [OF "1.prems" True] by simp
  next
    case False
    then show ?thesis by (subst blockLoop.simps) simp
  qed
qed

lemma blockLoop_empty_iff: "blockLoop b 0 = [] \<longleftrightarrow> bufferLength b < blockLen b"
  by (subst blockLoop.simps) auto

lemma integratedLUFS_cases:
  "integratedLUFS_R128Gated b =
     (if blockLoop b 0 = [] then NegInfinity
      else if absGated b = [] then Fin (-70)
      else if relGated b = [] then Fin (ungatedLUFS b)
      else Fin (gatedLUFS b))"
  by (simp add: integratedLUFS_R128Gated_def Let_def absGated_def relGated_def ungatedLUFS_def
      gatedLUFS_def absGateLUFS_def)

lemma absGated_silent:
  assumes "allZero b"
  shows "absGated b = []"
  using blockLoop_silent [OF assms, of 0]
  by (auto simp: absGated_def absGateLUFS_def filter_empty_conv)

text \<open>The relative gate always lets the loudest block through.\<close>

lemma foldl_add_sum_list:
  fixes xs :: "real list"
  shows "foldl (\<lambda>a b. a + b) s xs = s + sum_list xs"
  by (induction xs arbitrary: s) simp_all

lemma mean_le_Max:
  fixes xs :: "real list"
  assumes "xs \<noteq> []"
  shows "sum_list xs / real (length xs) \<le> Max (set xs)"
proof -
  have "sum_list (map (\<lambda>x. x) xs) \<le> sum_list (map (\<lambda>_. Max (set xs)) xs)"
    by (rule sum_list_mono) simp
  then have "sum_list xs \<le> sum_list (map (\<lambda>_. Max (set xs)) xs)"
    by simp
  also have "\<dots> = real (length xs) * Max (set xs)"
    by (simp add: sum_list_triv)
  finally show ?thesis
    using assms by (simp add: divide_le_eq mult.commute)
qed

lemma relative_gate_keeps_loudest:
  assumes "ls \<noteq> []"
  shows "Max (set ls) >
           -0.691 + 10 * log 10 (max (1 / 10 ^ 12) (lufsBlocksToMeanSquare ls)) - 10
         \<or> Max (set ls) \<le> -120.691"
proof -
  let ?M = "Max (set ls)"
  let ?ms = "map (\<lambda>l. 10 powr ((l + 0.691) / 10)) ls"
  let ?mean = "lufsBlocksToMeanSquare ls"
  have mean: "?mean = sum_list ?ms / real (length ?ms)"
    by (simp add: lufsBlocksToMeanSquare_def Let_def foldl_add_sum_list)
  have "?ms \<noteq> []" using assms by simp
  from mean_le_Max [OF this] have "?mean \<le> Max (set ?ms)"
    by (simp add: mean)
  also have "Max (set ?ms) \<le> 10 powr ((?M + 0.691) / 10)"
    using assms by (subst Max_le_iff) (auto intro!: powr_mono divide_right_mono)
  finally have le: "?mean \<le> 10 powr ((?M + 0.691) / 10)" .
  show ?thesis
  proof (cases "1 / 10 ^ 12 \<le> ?mean")
    case True
    then have pos: "0 < ?mean"
      by (smt (verit) zero_less_divide_1_iff zero_less_power)
    have "log 10 ?mean \<le> log 10 (10 powr ((?M + 0.691) / 10))"
      using le pos by (subst log_le_cancel_iff) simp_all
    then have "log 10 ?mean \<le> (?M + 0.691) / 10"
      by simp
    with True show ?thesis
      by (simp add: max_absorb2)
  next
    case False
    then have "max (1 / 10 ^ 12) ?mean = 1 / 10 ^ 12"
      by (simp add: max_absorb1)
    then have "-0.691 + 10 * log 10 (max (1 / 10 ^ 12) ?mean) - 10 = -130.691"
      using log10_floor by (simp only:) simp
    then show ?thesis
      by (simp only:) (simp, linarith)
  qed
qed

lemma relGated_nonempty:
  assumes "absGated b \<noteq> []"
  shows "relGated b \<noteq> []"
proof -
  let ?M = "Max (set (absGated b))"
  have M: "?M \<in> set (absGated b)"
    using assms by (intro Max_in) simp_all
  then have "?M > -70"
    by (simp add: absGated_def absGateLUFS_def)
  with relative_gate_keeps_loudest [OF assms] have "?M > ungatedLUFS b - 10"
    by (auto simp: ungatedLUFS_def)
  with M have "?M \<in> set (relGated b)"
    by (simp add: relGated_def)
  then show ?thesis by auto
qed

text \<open>
  Claim C4, as stated, fails on a clip that holds no complete 400 ms block. A tenth of a
  second of silence at 44100 Hz has no block, so the absolute gate leaves no block, yet
  the result is not the absolute-gate value -70: the guard \<open>if (!blocks.length)\<close> of
  the source returns \<open>-Infinity\<close> first.
\<close>

theorem integratedLUFS_no_block_counterexample:
  "allZero silentTenthOfSecond
   \<and> absGated silentTenthOfSecond = []
   \<and> integratedLUFS_R128Gated silentTenthOfSecond = NegInfinity
   \<and> integratedLUFS_R128Gated silentTenthOfSecond \<noteq> Fin (-70)"
proof -
  have z: "allZero silentTenthOfSecond"
    by (simp add: allZero_def silentTenthOfSecond_def)
  have "bufferLength silentTenthOfSecond < blockLen silentTenthOfSecond"
    by (simp add: silentTenthOfSecond_def blockLen_def)
  then have "blockLoop silentTenthOfSecond 0 = []"
    by (simp add: blockLoop_empty_iff)
  then have "integratedLUFS_R128Gated silentTenthOfSecond = NegInfinity"
    by (simp add: integratedLUFS_cases)
  with z absGated_silent [OF z] show ?thesis by simp
qed

text \<open>
  Claim C4, amended. \<open>integratedLUFS_R128Gated\<close> is total (the loop over the blocks
  terminates for every buffer, see the termination proof of \<open>blockLoop\<close>) and raises
  no error. For a buffer shorter than one block it returns \<open>-Infinity\<close>. For a buffer
  with at least one complete block: if the absolute gate at -70 LUFS eliminates every block
  it returns -70; otherwise, if the relative gate (ungated estimate minus 10 LU) eliminates
  every remaining block it returns the ungated estimate, and else the gated estimate. In
  particular, for an all-zero buffer with at least one complete block it returns -70.
  (By \<open>relGated_nonempty\<close> the loudest block always passes the relative gate, so the
  ungated fallback of the source is never taken.)
\<close>

theorem integratedLUFS_R128Gated_fallbacks:
  "integratedLUFS_R128Gated b =
     (if bufferLength b < blockLen b then NegInfinity
      else if absGated b = [] then Fin (-70)
      else if relGated b = [] then Fin (ungatedLUFS b)
      else Fin (gatedLUFS b))
   \<and> (allZero b \<and> blockLen b \<le> bufferLength b \<longrightarrow> integratedLUFS_R128Gated b = Fin (-70))"
proof -
  have "integratedLUFS_R128Gated b = Fin (-70)" if "allZero b" "blockLen b \<le> bufferLength b"
    using that absGated_silent [of b] by (simp add: integratedLUFS_cases blockLoop_empty_iff)
  then show ?thesis
    by (simp add: integratedLUFS_cases blockLoop_empty_iff)
qed

text \<open>
  Two seconds of mono silence at 44100 Hz: blocks of 17640 samples, all of them at
  -120.691 LUFS and below the absolute gate.
\<close>

theorem integratedLUFS_R128Gated_fallbacks_witness:
  "allZero silentTwoSeconds
   \<and> blockLen silentTwoSeconds = 17640
   \<and> blockLen silentTwoSeconds \<le> bufferLength silentTwoSeconds
   \<and> integratedLUFS_R128Gated silentTwoSeconds = Fin (-70)"
proof -
  have z: "allZero silentTwoSeconds"
    by (simp add: allZero_def silentTwoSeconds_def)
  have l: "blockLen silentTwoSeconds = 17640"
    by (simp add: silentTwoSeconds_def blockLen_def)
  have le: "blockLen silentTwoSeconds \<le> bufferLength silentTwoSeconds"
    by (simp add: l) (simp add: silentTwoSeconds_def)
  from integratedLUFS_R128Gated_fallbacks [of silentTwoSeconds] z le
  have "integratedLUFS_R128Gated silentTwoSeconds = Fin (-70)"
    by blast
  with z l le show ?thesis
    by blast
qed

text \<open>
  A buffer that is not silent, through every stage: one block of four samples of value 1
  at 10 Hz measures -0.691 LUFS and passes both gates.
\<close>

lemma integratedLUFS_fullScaleBlock: "integratedLUFS_R128Gated fullScaleBlock = Fin (-0.691)"
proof -
  have bl: "blockLen fullScaleBlock = 4" and st: "step fullScaleBlock = 1"
    by (simp_all add: fullScaleBlock_def blockLen_def step_def)
  have u: "[0 ..< 4] = [0, 1, 2, 3::nat]" "[0 ..< 1] = [0::nat]"
    by (simp_all add: upt_rec)
  have "blockLUFS fullScaleBlock 0 = -0.691"
    unfolding blockLUFS_def bl by (simp add: fullScaleBlock_def u)
  moreover have "blockLoop fullScaleBlock 0 = [blockLUFS fullScaleBlock 0]"
    by (subst blockLoop.simps, subst blockLoop.simps) (simp add: bl st, simp add: fullScaleBlock_def)
  ultimately have blocks: "blockLoop fullScaleBlock 0 = [-0.691]"
    by simp
  have a: "absGated fullScaleBlock = [-0.691]"
    by (simp add: absGated_def blocks absGateLUFS_def)
  have un: "ungatedLUFS fullScaleBlock = -0.691"
    by (simp add: ungatedLUFS_def a lufsBlocksToMeanSquare_def)
  have r: "relGated fullScaleBlock = [-0.691]"
    by (simp add: relGated_def a un)
  have g: "gatedLUFS fullScaleBlock = -0.691"
    by (simp add: gatedLUFS_def r lufsBlocksToMeanSquare_def)
  show ?thesis
    by (simp add: integratedLUFS_cases blocks a r g)
qed


section \<open>Verification: WAV export\<close>

subsection \<open>Bytes of a number\<close>

lemma unat_byteOf: "unat (byteOf n k) = (n div 256 ^ k) mod 256"
  by (simp add: byteOf_def unat_of_nat take_bit_eq_mod)

lemma decode16:
  fixes n :: nat
  shows "n mod 256 + 256 * ((n div 256) mod 256) = n mod 2 ^ 16"
proof -
  have "n mod (256 * 256) = 256 * (n div 256 mod 256) + n mod 256"
    by (rule mod_mult2_eq)
  then show ?thesis by simp
qed

lemma decode32:
  fixes n :: nat
  shows "n mod 256 + 256 * ((n div 256) mod 256) + 256 ^ 2 * ((n div 256 ^ 2) mod 256)
           + 256 ^ 3 * ((n div 256 ^ 3) mod 256) = n mod 2 ^ 32"
proof -
  have a: "n mod (65536 * 65536) = 65536 * (n div 65536 mod 65536) + n mod 65536"
    by (rule mod_mult2_eq)
  have b: "n mod (256 * 256) = 256 * (n div 256 mod 256) + n mod 256"
    by (rule mod_mult2_eq)
  have c: "(n div 65536) mod (256 * 256)
             = 256 * (n div 65536 div 256 mod 256) + (n div 65536) mod 256"
    by (rule mod_mult2_eq)
  have d: "n div 65536 div 256 = n div 16777216"
    by (simp add: div_mult2_eq [symmetric])
  show ?thesis
    using a b c d by simp
qed


lemma scaleSample_range: "- 32768 \<le> scaleSample x \<and> scaleSample x \<le> 32767"
  by (simp add: scaleSample_def Let_def max_def min_def)

lemma truncate_range:
  assumes "- 32768 \<le> y" and "y \<le> 32767"
  shows "- 32768 \<le> truncateTowardZero y \<and> truncateTowardZero y \<le> 32767"
proof (cases "y < 0")
  case True
  have "\<lceil>- 32768 :: real\<rceil> \<le> \<lceil>y\<rceil>" using assms(1) by (rule ceiling_mono)
  moreover have "\<lceil>y\<rceil> \<le> \<lceil>0 :: real\<rceil>" using True by (intro ceiling_mono) simp
  ultimately show ?thesis using True by (simp add: truncateTowardZero_def)
next
  case False
  have "\<lfloor>0 :: real\<rfloor> \<le> \<lfloor>y\<rfloor>" using False by (intro floor_mono) simp
  moreover have "\<lfloor>y\<rfloor> \<le> \<lfloor>32767 :: real\<rfloor>" using assms(2) by (rule floor_mono)
  ultimately show ?thesis using False by (simp add: truncateTowardZero_def)
qed

lemma int16_roundtrip:
  fixes t :: int
  assumes "- 32768 \<le> t" and "t \<le> 32767"
  shows "(let u = int (nat (t mod 2 ^ 16)) in if u < 2 ^ 15 then u else u - 2 ^ 16) = t"
proof (cases "0 \<le> t")
  case True
  then have "t mod 65536 = t" using assms by (intro mod_pos_pos_trivial) simp_all
  then show ?thesis using True assms by (simp add: Let_def)
next
  case False
  have "(t + 65536) mod 65536 = t + 65536"
    using False assms by (intro mod_pos_pos_trivial) simp_all
  then have "t mod 65536 = t + 65536" by simp
  then show ?thesis using False assms by (simp add: Let_def)
qed


lemma int16Bits_less: "int16Bits x < 2 ^ 16"
proof -
  have "truncateTowardZero x mod 2 ^ 16 < 2 ^ 16"
    by (rule pos_mod_bound) simp
  then show ?thesis
    by (simp add: int16Bits_def nat_less_iff)
qed

lemma bytesAfter_Suc:
  "(bytesAfter b f n)
      (44 + 2 * n := byteOf (int16Bits (scaleSample (sampleAt b n))) 0,
       44 + 2 * n + 1 := byteOf (int16Bits (scaleSample (sampleAt b n))) 1)
     = bytesAfter b f (Suc n)"
proof (rule ext)
  fix k
  consider "k = 44 + 2 * n" | "k = 44 + 2 * n + 1" | "k < 44 + 2 * n" | "k > 44 + 2 * n + 1"
    by linarith
  then show "((bytesAfter b f n)
      (44 + 2 * n := byteOf (int16Bits (scaleSample (sampleAt b n))) 0,
       44 + 2 * n + 1 := byteOf (int16Bits (scaleSample (sampleAt b n))) 1)) k
     = bytesAfter b f (Suc n) k"
  proof cases
    case 1
    then show ?thesis by (simp add: bytesAfter_def)
  next
    case 2
    then show ?thesis by (simp add: bytesAfter_def)
  next
    case 3
    then show ?thesis by (simp add: bytesAfter_def)
  next
    case 4
    then show ?thesis by (simp add: bytesAfter_def)
  qed
qed

lemma setInt16_bytes:
  assumes "offset + 2 \<le> byteLength view"
  shows "setInt16 view offset x =
           Some (view \<lparr> bytes := (bytes view)
                   (offset := byteOf (int16Bits x) 0, offset + 1 := byteOf (int16Bits x) 1) \<rparr>)"
proof -
  have "int16Bits x mod 2 ^ 16 = int16Bits x"
    using int16Bits_less [of x] by (rule mod_less)
  then show ?thesis
    using assms unfolding setInt16_def setUint16_def put16_def int16Bits_def [symmetric]
    by (simp only: if_True)
qed

lemma writeSample_step:
  assumes "c < numberOfChannels b"
    and "44 + 2 * Suc (i * numberOfChannels b + c) \<le> byteLength v0"
  shows "writeSample b i c (dataState b v0 (i * numberOfChannels b + c))
           = Some (dataState b v0 (Suc (i * numberOfChannels b + c)))"
proof -
  let ?n = "i * numberOfChannels b + c"
  let ?v = "v0 \<lparr> bytes := bytesAfter b (bytes v0) ?n \<rparr>"
  have s: "sampleAt b ?n = getChannelData b c i"
    using assms(1) by (simp add: sampleAt_def)
  have "44 + 2 * ?n + 2 \<le> byteLength ?v"
    using assms(2) by simp
  from setInt16_bytes [OF this, of "scaleSample (getChannelData b c i)"]
  have "setInt16 ?v (44 + 2 * ?n) (scaleSample (getChannelData b c i))
          = Some (v0 \<lparr> bytes := bytesAfter b (bytes v0) (Suc ?n) \<rparr>)"
    using bytesAfter_Suc [of b "bytes v0" ?n] by (simp add: s)
  then show ?thesis
    by (simp add: writeSample_def dataState_def)
qed

lemma forEach_snoc:
  "forEach (xs @ [x]) body s = forEach xs body s \<bind> body x"
proof (induction xs arbitrary: s)
  case Nil
  show ?case by (cases "body x s") simp_all
next
  case (Cons a xs)
  show ?case by (cases "body a s") (simp_all add: Cons.IH)
qed


lemma writeFrame_partial:
  assumes "m \<le> numberOfChannels b"
    and "44 + 2 * (i * numberOfChannels b + m) \<le> byteLength v0"
  shows "forEach [0 ..< m] (writeSample b i) (dataState b v0 (i * numberOfChannels b))
           = Some (dataState b v0 (i * numberOfChannels b + m))"
  using assms
proof (induction m)
  case 0
  show ?case by simp
next
  case (Suc m)
  have "forEach [0 ..< m] (writeSample b i) (dataState b v0 (i * numberOfChannels b))
          = Some (dataState b v0 (i * numberOfChannels b + m))"
    using Suc by simp
  moreover have "writeSample b i m (dataState b v0 (i * numberOfChannels b + m))
          = Some (dataState b v0 (Suc (i * numberOfChannels b + m)))"
    using Suc.prems by (intro writeSample_step) simp_all
  ultimately show ?case
    by (simp add: forEach_snoc)
qed

lemma writeFrame_step:
  assumes "44 + 2 * (Suc i * numberOfChannels b) \<le> byteLength v0"
  shows "writeFrame b i (dataState b v0 (i * numberOfChannels b))
           = Some (dataState b v0 (Suc i * numberOfChannels b))"
  using writeFrame_partial [of "numberOfChannels b" b i v0] assms
  by (simp add: writeFrame_def add.commute)

lemma writeFrames:
  assumes "44 + 2 * (n * numberOfChannels b) \<le> byteLength v0"
  shows "forEach [0 ..< n] (writeFrame b) (dataState b v0 0) = Some (dataState b v0 (n * numberOfChannels b))"
  using assms
proof (induction n)
  case 0
  show ?case by simp
next
  case (Suc n)
  have "forEach [0 ..< n] (writeFrame b) (dataState b v0 0)
          = Some (dataState b v0 (n * numberOfChannels b))"
    using Suc by simp
  moreover have "writeFrame b n (dataState b v0 (n * numberOfChannels b))
          = Some (dataState b v0 (Suc n * numberOfChannels b))"
    using Suc.prems by (rule writeFrame_step)
  ultimately show ?case
    by (simp add: forEach_snoc)
qed

lemma bytesAfter_0: "bytesAfter b f 0 = f"
  by (rule ext) (auto simp: bytesAfter_def)

lemma dataState_0: "dataState b v0 0 = (v0, 44)"
  by (simp add: dataState_def bytesAfter_0)

lemma bufferToWav_split:
  "bufferToWav b =
     writeHeader b \<bind> (\<lambda>view.
       forEach [0 ..< bufferLength b] (writeFrame b) (view, 44) \<bind> (\<lambda>(view, offset). Some view))"
  by (simp add: bufferToWav_def writeHeader_def Let_def)


subsection \<open>Header\<close>

lemma put8_apply:
  "put8 offset v f k = (if k = offset then byteOf (v mod 2 ^ 8) 0 else f k)"
  by (simp add: put8_def)

lemma put16_apply:
  "put16 offset v f k =
     (if offset \<le> k \<and> k < offset + 2 then byteOf (v mod 2 ^ 16) (k - offset) else f k)"
  by (auto simp: put16_def)

lemma put32_apply:
  "put32 offset v f k =
     (if offset \<le> k \<and> k < offset + 4 then byteOf (v mod 2 ^ 32) (k - offset) else f k)"
proof -
  consider "k = offset" | "k = offset + 1" | "k = offset + 2" | "k = offset + 3"
    | "k < offset" | "offset + 4 \<le> k"
    by linarith
  then show ?thesis
    by cases (simp_all add: put32_def)
qed

lemma putString_apply:
  "putString offset s f k =
     (if offset \<le> k \<and> k < offset + length s
      then byteOf (of_char (s ! (k - offset)) mod 2 ^ 8) 0 else f k)"
proof (induction s arbitrary: offset f)
  case Nil
  show ?case by auto
next
  case (Cons c cs)
  have step: "putString offset (c # cs) f k
                = putString (offset + 1) cs (put8 offset (of_char c) f) k"
    by simp
  show ?case
  proof (cases "k \<le> offset")
    case True
    then show ?thesis
      unfolding step Cons.IH by (auto simp: put8_apply)
  next
    case False
    then have j: "k - offset = Suc (k - Suc offset)"
      by simp
    from False show ?thesis
      unfolding step Cons.IH by (auto simp: put8_apply j)
  qed
qed

lemma writeString_Some:
  "offset + length s \<le> byteLength view \<Longrightarrow>
     writeString view offset s = Some (view \<lparr> bytes := putString offset s (bytes view) \<rparr>)"
proof (induction s arbitrary: view offset)
  case Nil
  show ?case by simp
next
  case (Cons c cs)
  then show ?case by (simp add: setUint8_def)
qed

lemma writeHeader_Some:
  "writeHeader b =
     Some \<lparr> byteLength = 44 + bufferLength b * numberOfChannels b * 2, bytes = headerBytes b \<rparr>"
  by (simp add: writeHeader_def headerBytes_def Let_def newArrayBuffer_def writeString_Some
      setUint16_def setUint32_def del: putString.simps writeString.simps)

lemma bufferToWav_wavFile: "bufferToWav b = Some (wavFile b)"
proof -
  let ?hv = "\<lparr> byteLength = 44 + bufferLength b * numberOfChannels b * 2, bytes = headerBytes b \<rparr>"
  have "forEach [0 ..< bufferLength b] (writeFrame b) (dataState b ?hv 0)
          = Some (dataState b ?hv (bufferLength b * numberOfChannels b))"
    by (rule writeFrames) simp
  then show ?thesis
    by (simp add: bufferToWav_split writeHeader_Some dataState_0) (simp add: dataState_def wavFile_def)
qed


subsection \<open>Fields of the file\<close>

lemma get16_bytes:
  assumes "f offset = byteOf n 0" and "f (offset + 1) = byteOf n 1" and "n < 2 ^ 16"
  shows "get16 f offset = n"
proof -
  have "get16 f offset = n mod 256 + 256 * ((n div 256) mod 256)"
    unfolding get16_def assms(1,2) unat_byteOf by simp
  also have "\<dots> = n mod 2 ^ 16" by (rule decode16)
  also have "\<dots> = n" using assms(3) by (rule mod_less)
  finally show ?thesis .
qed

lemma get32_bytes:
  assumes "f offset = byteOf n 0" and "f (offset + 1) = byteOf n 1"
    and "f (offset + 2) = byteOf n 2" and "f (offset + 3) = byteOf n 3" and "n < 2 ^ 32"
  shows "get32 f offset = n"
proof -
  have "get32 f offset = n mod 256 + 256 * ((n div 256) mod 256)
          + 256 ^ 2 * ((n div 256 ^ 2) mod 256) + 256 ^ 3 * ((n div 256 ^ 3) mod 256)"
    unfolding get32_def assms(1-4) unat_byteOf by simp
  also have "\<dots> = n mod 2 ^ 32" by (rule decode32)
  also have "\<dots> = n" using assms(5) by (rule mod_less)
  finally show ?thesis .
qed

lemma bytesAfter_header: "k < 44 \<Longrightarrow> bytesAfter b f n k = f k"
  by (simp add: bytesAfter_def)

lemma getUint32_wavFile:
  "offset + 4 \<le> 44 \<Longrightarrow> getUint32 (wavFile b) offset = get32 (headerBytes b) offset"
  by (simp add: getUint32_def wavFile_def get32_def bytesAfter_header)

lemma getUint16_wavFile:
  "offset + 2 \<le> 44 \<Longrightarrow> getUint16 (wavFile b) offset = get16 (headerBytes b) offset"
  by (simp add: getUint16_def wavFile_def get16_def bytesAfter_header)

lemma getString_wavFile:
  "offset + n \<le> 44 \<Longrightarrow>
     getString (wavFile b) offset n = map (\<lambda>i. unat (headerBytes b (offset + i))) [0 ..< n]"
  by (simp add: getString_def wavFile_def bytesAfter_header)

lemmas header_simps = headerBytes_def Let_def put32_apply put16_apply put8_apply

lemma riffSize: "getUint32 (wavFile b) 4 = (36 + bufferLength b * numberOfChannels b * 2) mod 2 ^ 32"
  unfolding getUint32_wavFile [of 4, simplified]
  by (rule get32_bytes) (simp_all add: header_simps)

lemma fmtSize: "getUint32 (wavFile b) 16 = 16"
  unfolding getUint32_wavFile [of 16, simplified]
  by (rule get32_bytes) (simp_all add: header_simps)

lemma formatTag: "getUint16 (wavFile b) 20 = 1"
  unfolding getUint16_wavFile [of 20, simplified]
  by (rule get16_bytes) (simp_all add: header_simps)

lemma channelCount: "getUint16 (wavFile b) 22 = numberOfChannels b mod 2 ^ 16"
  unfolding getUint16_wavFile [of 22, simplified]
  by (rule get16_bytes) (simp_all add: header_simps)

lemma sampleRateField: "getUint32 (wavFile b) 24 = sampleRate b mod 2 ^ 32"
  unfolding getUint32_wavFile [of 24, simplified]
  by (rule get32_bytes) (simp_all add: header_simps)

lemma blockAlign: "getUint16 (wavFile b) 32 = (numberOfChannels b * 2) mod 2 ^ 16"
  unfolding getUint16_wavFile [of 32, simplified]
  by (rule get16_bytes) (simp_all add: header_simps)

lemma bitsPerSample: "getUint16 (wavFile b) 34 = 16"
  unfolding getUint16_wavFile [of 34, simplified]
  by (rule get16_bytes) (simp_all add: header_simps)

lemma dataSize: "getUint32 (wavFile b) 40 = (bufferLength b * numberOfChannels b * 2) mod 2 ^ 32"
  unfolding getUint32_wavFile [of 40, simplified]
  by (rule get32_bytes) (simp_all add: header_simps)

lemma upt4: "[0 ..< 4] = [0, 1, 2, 3::nat]"
  by (simp add: upt_rec)

lemma tags:
  "getString (wavFile b) 0 4 = charCodes ''RIFF''"
  "getString (wavFile b) 8 4 = charCodes ''WAVE''"
  "getString (wavFile b) 12 4 = charCodes ''fmt ''"
  "getString (wavFile b) 36 4 = charCodes ''data''"
  by (simp_all add: getString_wavFile upt4 header_simps unat_byteOf charCodes_def)


subsection \<open>Samples of the file\<close>

lemma slot_less:
  fixes i s c n :: nat
  assumes "i < s" and "c < n"
  shows "i * n + c < s * n"
proof -
  have "i * n + c < i * n + n" using assms(2) by simp
  also have "\<dots> = Suc i * n" by simp
  also have "\<dots> \<le> s * n" using assms(1) by (intro mult_le_mono1) simp
  finally show ?thesis .
qed

lemma getUint16_slot:
  assumes "j < bufferLength b * numberOfChannels b"
  shows "getUint16 (wavFile b) (44 + 2 * j) = int16Bits (scaleSample (sampleAt b j))"
  unfolding getUint16_def
proof (rule get16_bytes)
  show "bytes (wavFile b) (44 + 2 * j) = byteOf (int16Bits (scaleSample (sampleAt b j))) 0"
    using assms by (simp add: wavFile_def bytesAfter_def)
  have "(2 * j + 1) div 2 = j" "(2 * j + 1) mod 2 = 1" by presburger+
  then show "bytes (wavFile b) (44 + 2 * j + 1) = byteOf (int16Bits (scaleSample (sampleAt b j))) 1"
    using assms by (simp add: wavFile_def bytesAfter_def)
  show "int16Bits (scaleSample (sampleAt b j)) < 2 ^ 16"
    by (rule int16Bits_less)
qed

lemma getInt16_slot:
  assumes "j < bufferLength b * numberOfChannels b"
  shows "getInt16 (wavFile b) (44 + 2 * j) = truncateTowardZero (scaleSample (sampleAt b j))"
proof -
  let ?t = "truncateTowardZero (scaleSample (sampleAt b j))"
  have r: "- 32768 \<le> ?t" "?t \<le> 32767"
    using truncate_range [of "scaleSample (sampleAt b j)"] scaleSample_range [of "sampleAt b j"]
    by simp_all
  show ?thesis
    unfolding getInt16_def getUint16_slot [OF assms] int16Bits_def
    by (rule int16_roundtrip [OF r])
qed

lemma getInt16_sample:
  assumes "i < bufferLength b" and "c < numberOfChannels b"
  shows "getInt16 (wavFile b) (44 + 2 * (i * numberOfChannels b + c))
           = truncateTowardZero (scaleSample (getChannelData b c i))"
proof -
  have "sampleAt b (i * numberOfChannels b + c) = getChannelData b c i"
    using assms(2) by (simp add: sampleAt_def)
  with getInt16_slot [OF slot_less [OF assms]] show ?thesis by simp
qed

lemma sampleAt_silent:
  assumes "allZero b" and "j < bufferLength b * numberOfChannels b"
  shows "sampleAt b j = 0"
proof -
  have pos: "0 < numberOfChannels b"
    using assms(2) by (cases "numberOfChannels b") simp_all
  then have "j mod numberOfChannels b < numberOfChannels b" by simp
  moreover have "j div numberOfChannels b < bufferLength b"
    using assms(2) pos by (simp add: less_mult_imp_div_less)
  ultimately show ?thesis
    using assms(1) by (simp add: sampleAt_def allZero_def)
qed

lemma int16Bits_0: "int16Bits (scaleSample 0) = 0"
  by (simp add: int16Bits_def scaleSample_def truncateTowardZero_def)

lemma byteOf_0: "byteOf 0 k = 0"
  by (simp add: byteOf_def)

lemma data_bytes_silent:
  assumes "allZero b" and "44 \<le> k" and "k < byteLength (wavFile b)"
  shows "bytes (wavFile b) k = 0"
proof -
  have "(k - 44) div 2 < bufferLength b * numberOfChannels b"
    using assms(2,3) by (simp add: wavFile_def)
  from sampleAt_silent [OF assms(1) this] assms(2,3) show ?thesis
    by (simp add: wavFile_def bytesAfter_def int16Bits_0 byteOf_0)
qed


subsection \<open>The WAV file\<close>

text \<open>
  Claim C6, amended. For every buffer with \<open>C\<close> channels, \<open>S\<close> samples per channel
  and sample rate \<open>R\<close> whose sizes fit the fields of the header
  (\<open>36 + S*C*2 < 2^32\<close>, \<open>C*2 < 2^16\<close>, \<open>R < 2^32\<close>), \<open>bufferToWav\<close> raises no
  error and produces exactly \<open>44 + S*C*2\<close> bytes with a little-endian header: the tags
  RIFF, WAVE, fmt and data, RIFF size \<open>36 + S*C*2\<close>, fmt chunk size 16, PCM format tag 1,
  channel count \<open>C\<close>, sample rate \<open>R\<close>, block align \<open>C*2\<close>, 16 bits per sample and
  data length \<open>S*C*2\<close>. The samples are interleaved, and the 16-bit value of sample
  \<open>i\<close> of channel \<open>c\<close> is the sample clamped to [-1, 1], multiplied by 32768 when
  negative and by 32767 otherwise (\<open>scaleSample\<close>), with its fraction dropped.
\<close>

theorem bufferToWav_layout:
  assumes "36 + bufferLength b * numberOfChannels b * 2 < 2 ^ 32"
    and "numberOfChannels b * 2 < 2 ^ 16"
    and "sampleRate b < 2 ^ 32"
  shows "\<exists>view. bufferToWav b = Some view
           \<and> byteLength view = 44 + bufferLength b * numberOfChannels b * 2
           \<and> getString view 0 4 = charCodes ''RIFF''
           \<and> getUint32 view 4 = 36 + bufferLength b * numberOfChannels b * 2
           \<and> getString view 8 4 = charCodes ''WAVE''
           \<and> getString view 12 4 = charCodes ''fmt ''
           \<and> getUint32 view 16 = 16
           \<and> getUint16 view 20 = 1
           \<and> getUint16 view 22 = numberOfChannels b
           \<and> getUint32 view 24 = sampleRate b
           \<and> getUint16 view 32 = numberOfChannels b * 2
           \<and> getUint16 view 34 = 16
           \<and> getString view 36 4 = charCodes ''data''
           \<and> getUint32 view 40 = bufferLength b * numberOfChannels b * 2
           \<and> (\<forall>i < bufferLength b. \<forall>c < numberOfChannels b.
                 getInt16 view (44 + 2 * (i * numberOfChannels b + c))
                   = truncateTowardZero (scaleSample (getChannelData b c i)))"
proof (intro exI conjI allI impI)
  show "bufferToWav b = Some (wavFile b)"
    by (rule bufferToWav_wavFile)
  show "byteLength (wavFile b) = 44 + bufferLength b * numberOfChannels b * 2"
    by (simp add: wavFile_def)
  show "getUint32 (wavFile b) 4 = 36 + bufferLength b * numberOfChannels b * 2"
    using assms(1) by (simp only: riffSize mod_less)
  show "getUint32 (wavFile b) 40 = bufferLength b * numberOfChannels b * 2"
    using assms(1) by (simp only: dataSize) simp
  show "getUint16 (wavFile b) 22 = numberOfChannels b"
    using assms(2) by (simp only: channelCount) simp
  show "getUint16 (wavFile b) 32 = numberOfChannels b * 2"
    using assms(2) by (simp only: blockAlign mod_less)
  show "getUint32 (wavFile b) 24 = sampleRate b"
    using assms(3) by (simp only: sampleRateField mod_less)
  show "getInt16 (wavFile b) (44 + 2 * (i * numberOfChannels b + c))
          = truncateTowardZero (scaleSample (getChannelData b c i))"
    if "i < bufferLength b" "c < numberOfChannels b" for i c
    using that by (rule getInt16_sample)
qed (rule tags fmtSize formatTag bitsPerSample)+


text \<open>
  Two stereo frames: the samples 0.5, 3 (clamped to 1), -1 and -0.25 become 16383, 32767,
  -32768 and -8192.
\<close>

theorem bufferToWav_layout_witness:
  "bufferToWav tinyStereo = Some (wavFile tinyStereo)
   \<and> byteLength (wavFile tinyStereo) = 52
   \<and> getUint32 (wavFile tinyStereo) 4 = 44
   \<and> getUint16 (wavFile tinyStereo) 22 = 2
   \<and> getUint32 (wavFile tinyStereo) 24 = 44100
   \<and> getUint16 (wavFile tinyStereo) 32 = 4
   \<and> getUint32 (wavFile tinyStereo) 40 = 8
   \<and> getInt16 (wavFile tinyStereo) 44 = 16383
   \<and> getInt16 (wavFile tinyStereo) 46 = 32767
   \<and> getInt16 (wavFile tinyStereo) 48 = - 32768
   \<and> getInt16 (wavFile tinyStereo) 50 = - 8192"
proof -
  have h: "36 + bufferLength tinyStereo * numberOfChannels tinyStereo * 2 < 2 ^ 32"
    "numberOfChannels tinyStereo * 2 < 2 ^ 16" "sampleRate tinyStereo < 2 ^ 32"
    by (simp_all add: tinyStereo_def)
  from bufferToWav_layout [OF h] obtain view where
    v: "bufferToWav tinyStereo = Some view"
    and f: "byteLength view = 44 + bufferLength tinyStereo * numberOfChannels tinyStereo * 2"
      "getUint32 view 4 = 36 + bufferLength tinyStereo * numberOfChannels tinyStereo * 2"
      "getUint16 view 22 = numberOfChannels tinyStereo"
      "getUint32 view 24 = sampleRate tinyStereo"
      "getUint16 view 32 = numberOfChannels tinyStereo * 2"
      "getUint32 view 40 = bufferLength tinyStereo * numberOfChannels tinyStereo * 2"
    and s: "\<forall>i < bufferLength tinyStereo. \<forall>c < numberOfChannels tinyStereo.
              getInt16 view (44 + 2 * (i * numberOfChannels tinyStereo + c))
                = truncateTowardZero (scaleSample (getChannelData tinyStereo c i))"
    by blast
  have view: "view = wavFile tinyStereo"
    using v by (simp add: bufferToWav_wavFile)
  have "getInt16 view 44 = 16383" "getInt16 view 46 = 32767"
    "getInt16 view 48 = - 32768" "getInt16 view 50 = - 8192"
    using s [rule_format, of 0 0] s [rule_format, of 0 1] s [rule_format, of 1 0]
      s [rule_format, of 1 1]
    by (simp_all add: tinyStereo_def scaleSample_def truncateTowardZero_def)
  with v f show ?thesis
    unfolding view by (simp add: tinyStereo_def)
qed

text \<open>
  Claim C6, as stated, fails when the data does not fit a 32-bit size. For \<open>2^30\<close>
  stereo frames the PCM data has \<open>2^32\<close> bytes; \<open>setUint32\<close> stores the RIFF size
  \<open>36 + 2^32\<close> modulo \<open>2^32\<close>, and the field reads 36.
\<close>

theorem bufferToWav_riff_size_counterexample:
  "wavUint32 hugeStereo 4 = Some 36
   \<and> 36 + bufferLength hugeStereo * numberOfChannels hugeStereo * 2 = 4294967332"
proof -
  have "getUint32 (wavFile hugeStereo) 4 = 36"
    unfolding riffSize by (simp add: hugeStereo_def)
  then show ?thesis
    by (simp add: wavUint32_def bufferToWav_wavFile) (simp add: hugeStereo_def)
qed

text \<open>
  Claim C7, amended. For every buffer whose samples are all zero and whose data length
  \<open>samples * channels * 2\<close> is below \<open>2^32\<close>, \<open>bufferToWav\<close> yields a data chunk
  of zero 16-bit samples (every byte from offset 44 on is 0, so decoding the PCM data
  gives zero samples again), and the data length field of the header equals
  \<open>samples * channels * 2\<close>.
\<close>

theorem bufferToWav_silence:
  assumes "allZero b" and "bufferLength b * numberOfChannels b * 2 < 2 ^ 32"
  shows "\<exists>view. bufferToWav b = Some view
           \<and> (\<forall>i < bufferLength b. \<forall>c < numberOfChannels b.
                 getInt16 view (44 + 2 * (i * numberOfChannels b + c)) = 0)
           \<and> (\<forall>k. 44 \<le> k \<and> k < byteLength view \<longrightarrow> bytes view k = 0)
           \<and> getUint32 view 40 = bufferLength b * numberOfChannels b * 2"
proof (intro exI conjI allI impI)
  show "bufferToWav b = Some (wavFile b)"
    by (rule bufferToWav_wavFile)
  show "getInt16 (wavFile b) (44 + 2 * (i * numberOfChannels b + c)) = 0"
    if "i < bufferLength b" "c < numberOfChannels b" for i c
    using that assms(1) getInt16_sample [OF that]
    by (simp add: allZero_def scaleSample_def truncateTowardZero_def)
  show "bytes (wavFile b) k = 0" if "44 \<le> k \<and> k < byteLength (wavFile b)" for k
    using that data_bytes_silent [OF assms(1), of k] by simp
  show "getUint32 (wavFile b) 40 = bufferLength b * numberOfChannels b * 2"
    using assms(2) by (simp only: dataSize mod_less)
qed

text \<open>
  Three silent stereo frames: a file of 56 bytes, data length 12, six zero samples.
\<close>

theorem bufferToWav_silence_witness:
  "allZero silentStereo
   \<and> bufferToWav silentStereo = Some (wavFile silentStereo)
   \<and> byteLength (wavFile silentStereo) = 56
   \<and> getUint32 (wavFile silentStereo) 40 = 12
   \<and> map (getInt16 (wavFile silentStereo)) [44, 46, 48, 50, 52, 54] = [0, 0, 0, 0, 0, 0]
   \<and> map (bytes (wavFile silentStereo)) [44, 45, 54, 55] = [0, 0, 0, 0]"
proof -
  have z: "allZero silentStereo"
    by (simp add: allZero_def silentStereo_def)
  have h: "bufferLength silentStereo * numberOfChannels silentStereo * 2 < 2 ^ 32"
    by (simp add: silentStereo_def)
  from bufferToWav_silence [OF z h] obtain view where
    v: "bufferToWav silentStereo = Some view"
    and s: "\<forall>i < bufferLength silentStereo. \<forall>c < numberOfChannels silentStereo.
              getInt16 view (44 + 2 * (i * numberOfChannels silentStereo + c)) = 0"
    and y: "\<forall>k. 44 \<le> k \<and> k < byteLength view \<longrightarrow> bytes view k = 0"
    and d: "getUint32 view 40 = bufferLength silentStereo * numberOfChannels silentStereo * 2"
    by blast
  have view: "view = wavFile silentStereo"
    using v by (simp add: bufferToWav_wavFile)
  have l: "byteLength view = 56"
    by (simp add: view wavFile_def silentStereo_def)
  have i: "map (getInt16 view) [44, 46, 48, 50, 52, 54] = [0, 0, 0, 0, 0, 0]"
    using s [rule_format, of 0 0] s [rule_format, of 0 1] s [rule_format, of 1 0]
      s [rule_format, of 1 1] s [rule_format, of 2 0] s [rule_format, of 2 1]
    by (simp add: silentStereo_def)
  have b: "map (bytes view) [44, 45, 54, 55] = [0, 0, 0, 0]"
    using y l by simp
  from z v l d i b show ?thesis
    unfolding view by (simp add: silentStereo_def)
qed

text \<open>
  Claim C7, as stated, fails on a silent buffer whose data does not fit a 32-bit size:
  for \<open>2^31\<close> silent mono frames the data length is \<open>2^32\<close> bytes and the field of
  the header reads 0.
\<close>

theorem bufferToWav_data_length_counterexample:
  "allZero hugeSilentMono
   \<and> wavUint32 hugeSilentMono 40 = Some 0
   \<and> bufferLength hugeSilentMono * numberOfChannels hugeSilentMono * 2 = 4294967296"
proof -
  have "getUint32 (wavFile hugeSilentMono) 40 = 0"
    unfolding dataSize by (simp add: hugeSilentMono_def)
  then show ?thesis
    by (simp add: wavUint32_def bufferToWav_wavFile allZero_def) (simp add: hugeSilentMono_def)
qed


end
